theory Spec2Isabelle
  imports Main
begin

section \<open>JSON values and the JavaScript operators applied to them\<close>

text \<open>
  The data-access layer (\<^verbatim>\<open>src/lib/weaviate.ts\<close>) and the route handler
  (\<^verbatim>\<open>src/app/api/collection/[name]/route.ts\<close>) read the bodies of HTTP responses
  with \<^verbatim>\<open>response.json()\<close>. The TypeScript annotations on those bodies are not checked
  at run time, so a body is modelled as an arbitrary JSON value and every member read
  follows JavaScript: reading a member of \<^verbatim>\<open>null\<close> or \<^verbatim>\<open>undefined\<close> throws a
  \<^verbatim>\<open>TypeError\<close>, reading a missing member gives \<^verbatim>\<open>undefined\<close>.

  \<^item> \<open>json\<close> is a parsed JSON value; an object is the list of its members (keys
    distinct, as \<^verbatim>\<open>JSON.parse\<close> leaves them). Numbers are modelled as integers: the
    only number the code inspects is an object count. \<open>JBuiltin\<close> is no JSON value
    and occurs in no parsed body: it stands for a built-in function or prototype
    object, which is what a computed read \<^verbatim>\<open>v[k]\<close> gives when \<open>k\<close> names a member
    that \<open>v\<close> inherits (\<^verbatim>\<open>constructor\<close>, \<^verbatim>\<open>__proto__\<close>, \<^verbatim>\<open>toString\<close>, ...).
  \<^item> \<open>jsval\<close> adds \<^verbatim>\<open>undefined\<close> (\<open>None\<close>).
  \<^item> \<open>error\<close> is a thrown value: the three kinds of \<^verbatim>\<open>Error\<close> object that occur, each
    with its message, and \<open>NonError\<close> for a thrown value that is no \<^verbatim>\<open>Error\<close>
    instance (the handlers test \<^verbatim>\<open>error instanceof Error\<close>).

  Console output is not modelled.
\<close>

datatype json =
    JNull
  | JBool bool
  | JNum int
  | JStr string
  | JArr "json list"
  | JObj "(string \<times> json) list"
  | JBuiltin

type_synonym jsval = "json option"

datatype error =
    Error string
  | TypeError string
  | SyntaxError string
  | NonError

text \<open>\<^verbatim>\<open>error instanceof Error ? error.message : 'Unknown error'\<close>\<close>

fun details :: "error \<Rightarrow> string" where
  "details (Error m) = m"
| "details (TypeError m) = m"
| "details (SyntaxError m) = m"
| "details NonError = ''Unknown error''"

definition and_then :: "error + 'a \<Rightarrow> ('a \<Rightarrow> error + 'b) \<Rightarrow> error + 'b" where
  "and_then r f = (case r of Inl e \<Rightarrow> Inl e | Inr x \<Rightarrow> f x)"

fun map_err :: "('a \<Rightarrow> error + 'b) \<Rightarrow> 'a list \<Rightarrow> error + 'b list" where
  "map_err f [] = Inr []"
| "map_err f (x # xs) =
     (case f x of
        Inl e \<Rightarrow> Inl e
      | Inr y \<Rightarrow> (case map_err f xs of Inl e \<Rightarrow> Inl e | Inr ys \<Rightarrow> Inr (y # ys)))"

text \<open>\<^verbatim>\<open>v == null\<close>: the values at which \<^verbatim>\<open>?.\<close> and \<^verbatim>\<open>??\<close> give way.\<close>

definition js_nullish :: "jsval \<Rightarrow> bool" where
  "js_nullish v = (v = None \<or> v = Some JNull)"

text \<open>Truthiness, as \<^verbatim>\<open>!v\<close>, \<^verbatim>\<open>a || b\<close> and \<^verbatim>\<open>a && b\<close> test it.\<close>

fun js_truthy :: "jsval \<Rightarrow> bool" where
  "js_truthy None = False"
| "js_truthy (Some JNull) = False"
| "js_truthy (Some (JBool b)) = b"
| "js_truthy (Some (JNum n)) = (n \<noteq> 0)"
| "js_truthy (Some (JStr s)) = (s \<noteq> [])"
| "js_truthy (Some (JArr xs)) = True"
| "js_truthy (Some (JObj kvs)) = True"
| "js_truthy (Some JBuiltin) = True"

text \<open>\<^verbatim>\<open>a ?? b\<close> and \<^verbatim>\<open>a || b\<close> with a default \<open>b\<close> that is a JSON value.\<close>

fun js_coalesce :: "jsval \<Rightarrow> json \<Rightarrow> json" where
  "js_coalesce None b = b"
| "js_coalesce (Some JNull) b = b"
| "js_coalesce (Some v) b = v"

definition js_or :: "jsval \<Rightarrow> json \<Rightarrow> json" where
  "js_or a b = (case a of None \<Rightarrow> b | Some v \<Rightarrow> if js_truthy a then v else b)"

text \<open>Decimal digits of a number, for \<^verbatim>\<open>String(n)\<close> and for array index keys.\<close>

fun nat_str :: "nat \<Rightarrow> string" where
  "nat_str n =
     (if n < 10 then [''0123456789'' ! n]
      else nat_str (n div 10) @ [''0123456789'' ! (n mod 10)])"

declare nat_str.simps [simp del]

definition int_str :: "int \<Rightarrow> string" where
  "int_str i = (if i < 0 then CHR ''-'' # nat_str (nat (- i)) else nat_str (nat i))"

fun join :: "string \<Rightarrow> string list \<Rightarrow> string" where
  "join sep [] = []"
| "join sep [x] = x"
| "join sep (x # y # ys) = x @ sep @ join sep (y # ys)"

text \<open>
  \<^verbatim>\<open>String(v)\<close>, which a template literal applies to each interpolated value and
  \<^verbatim>\<open>Array.prototype.join\<close> to each element that is neither \<^verbatim>\<open>null\<close> nor
  \<^verbatim>\<open>undefined\<close>. The values the code converts are class names and property names,
  read under the keys \<^verbatim>\<open>class\<close> and \<^verbatim>\<open>name\<close>, which no prototype has: no built-in
  value reaches a conversion, and the equation for \<open>JBuiltin\<close> (the text of a
  prototype object) is there for totality.
\<close>

fun js_str :: "json \<Rightarrow> string" where
  "js_str JNull = ''null''"
| "js_str (JBool b) = (if b then ''true'' else ''false'')"
| "js_str (JNum n) = int_str n"
| "js_str (JStr s) = s"
| "js_str (JArr xs) = join '','' (map (\<lambda>x. if x = JNull then [] else js_str x) xs)"
| "js_str (JObj kvs) = ''[object Object]''"
| "js_str JBuiltin = ''[object Object]''"

definition js_toString :: "jsval \<Rightarrow> string" where
  "js_toString v = (case v of None \<Rightarrow> ''undefined'' | Some j \<Rightarrow> js_str j)"

definition js_join :: "string \<Rightarrow> jsval list \<Rightarrow> string" where
  "js_join sep vs = join sep (map (\<lambda>v. if js_nullish v then [] else js_toString v) vs)"

definition quoted :: "string \<Rightarrow> string" where
  "quoted k = CHR 0x27 # k @ [CHR 0x27]"

text \<open>
  The string keys of the built-in prototypes (ECMAScript 2024 with the legacy members
  of its Annex B, as V8 has them). Every value that is not \<^verbatim>\<open>null\<close> or
  \<^verbatim>\<open>undefined\<close> inherits the members of \<^verbatim>\<open>Object.prototype\<close>; an array, a string,
  a number and a boolean inherit those of their own prototype first.
\<close>

definition Object_prototype :: "string list" where
  "Object_prototype =
     [''constructor'', ''__defineGetter__'', ''__defineSetter__'', ''hasOwnProperty'',
      ''__lookupGetter__'', ''__lookupSetter__'', ''isPrototypeOf'', ''propertyIsEnumerable'',
      ''toString'', ''valueOf'', ''__proto__'', ''toLocaleString'']"

definition Array_prototype :: "string list" where
  "Array_prototype =
     [''constructor'', ''at'', ''concat'', ''copyWithin'', ''entries'', ''every'', ''fill'',
      ''filter'', ''find'', ''findIndex'', ''findLast'', ''findLastIndex'', ''flat'', ''flatMap'',
      ''forEach'', ''includes'', ''indexOf'', ''join'', ''keys'', ''lastIndexOf'', ''map'', ''pop'',
      ''push'', ''reduce'', ''reduceRight'', ''reverse'', ''shift'', ''slice'', ''some'', ''sort'',
      ''splice'', ''toLocaleString'', ''toReversed'', ''toSorted'', ''toSpliced'', ''toString'',
      ''unshift'', ''values'', ''with'']"

definition String_prototype :: "string list" where
  "String_prototype =
     [''constructor'', ''at'', ''charAt'', ''charCodeAt'', ''codePointAt'', ''concat'',
      ''endsWith'', ''includes'', ''indexOf'', ''isWellFormed'', ''lastIndexOf'',
      ''localeCompare'', ''match'', ''matchAll'', ''normalize'', ''padEnd'', ''padStart'',
      ''repeat'', ''replace'', ''replaceAll'', ''search'', ''slice'', ''split'', ''startsWith'',
      ''substring'', ''toLocaleLowerCase'', ''toLocaleUpperCase'', ''toLowerCase'', ''toString'',
      ''toUpperCase'', ''toWellFormed'', ''trim'', ''trimEnd'', ''trimStart'', ''valueOf'',
      ''substr'', ''anchor'', ''big'', ''blink'', ''bold'', ''fixed'', ''fontcolor'', ''fontsize'',
      ''italics'', ''link'', ''small'', ''strike'', ''sub'', ''sup'', ''trimLeft'', ''trimRight'']"

definition Number_prototype :: "string list" where
  "Number_prototype =
     [''constructor'', ''toExponential'', ''toFixed'', ''toLocaleString'', ''toPrecision'',
      ''toString'', ''valueOf'']"

definition Boolean_prototype :: "string list" where
  "Boolean_prototype = [''constructor'', ''toString'', ''valueOf'']"

text \<open>
  A member found on the prototype chain, for a key that is no own member: the
  built-in value when a prototype of the chain has the key, \<^verbatim>\<open>undefined\<close> otherwise.
\<close>

definition inherited :: "string list \<Rightarrow> string \<Rightarrow> jsval" where
  "inherited chain k = (if k \<in> set chain then Some JBuiltin else None)"

text \<open>
  \<^verbatim>\<open>v.k\<close> and \<^verbatim>\<open>v[k]\<close>: a \<^verbatim>\<open>TypeError\<close> (in V8's wording) on \<^verbatim>\<open>undefined\<close> and
  \<^verbatim>\<open>null\<close>; otherwise the own member (a member of an object, an element or the
  length of an array or a string), and failing that the inherited one. Of a built-in
  value the code reads nothing but the index 0, which none of them has.
\<close>

fun js_member :: "jsval \<Rightarrow> string \<Rightarrow> error + jsval" where
  "js_member None k =
     Inl (TypeError (''Cannot read properties of undefined (reading '' @ quoted k @ '')''))"
| "js_member (Some JNull) k =
     Inl (TypeError (''Cannot read properties of null (reading '' @ quoted k @ '')''))"
| "js_member (Some (JObj kvs)) k =
     Inr (case map_of kvs k of
            Some x \<Rightarrow> Some x
          | None \<Rightarrow> inherited Object_prototype k)"
| "js_member (Some (JArr xs)) k =
     Inr (if k = ''length'' then Some (JNum (int (length xs)))
          else case map_of (zip (map nat_str [0..<length xs]) xs) k of
                 Some x \<Rightarrow> Some x
               | None \<Rightarrow> inherited (Array_prototype @ Object_prototype) k)"
| "js_member (Some (JStr s)) k =
     Inr (if k = ''length'' then Some (JNum (int (length s)))
          else case map_of (zip (map nat_str [0..<length s]) (map (\<lambda>c. JStr [c]) s)) k of
                 Some x \<Rightarrow> Some x
               | None \<Rightarrow> inherited (String_prototype @ Object_prototype) k)"
| "js_member (Some (JBool b)) k = Inr (inherited (Boolean_prototype @ Object_prototype) k)"
| "js_member (Some (JNum n)) k = Inr (inherited (Number_prototype @ Object_prototype) k)"
| "js_member (Some JBuiltin) k = Inr None"

text \<open>\<^verbatim>\<open>v?.k\<close>\<close>

definition js_optional :: "jsval \<Rightarrow> string \<Rightarrow> error + jsval" where
  "js_optional v k = (if js_nullish v then Inr None else js_member v k)"

text \<open>
  The values a \<^verbatim>\<open>for (const x of v)\<close> loop visits: the elements of an array, the
  characters of a string; any other JSON value is not iterable.
\<close>

fun js_iterate :: "json \<Rightarrow> error + json list" where
  "js_iterate (JArr xs) = Inr xs"
| "js_iterate (JStr s) = Inr (map (\<lambda>c. JStr [c]) s)"
| "js_iterate v = Inl (TypeError ''classes is not iterable'')"

text \<open>\<^verbatim>\<open>s.split(sep)\<close> for a one-character separator, and \<^verbatim>\<open>xs.pop()\<close>.\<close>

fun js_split :: "char \<Rightarrow> string \<Rightarrow> string list" where
  "js_split sep [] = [[]]"
| "js_split sep (c # cs) =
     (if c = sep then [] # js_split sep cs
      else (case js_split sep cs of [] \<Rightarrow> [[c]] | w # ws \<Rightarrow> (c # w) # ws))"

definition js_pop :: "'a list \<Rightarrow> 'a option" where
  "js_pop xs = (if xs = [] then None else Some (last xs))"

section \<open>The database service\<close>

text \<open>
  The three calls the code makes to the database: \<^verbatim>\<open>GET {base}/v1/schema\<close>,
  \<^verbatim>\<open>POST {base}/v1/graphql\<close> with body \<^verbatim>\<open>{query: queryStr}\<close>, and the class-delete
  primitive. A call either rejects with a thrown value or resolves to a response, whose
  \<open>json_body\<close> is what \<^verbatim>\<open>response.json()\<close> gives (a rejection when the body does not
  parse). The service is any function from the requests sent so far and the next
  request to the outcome, so its answers may change from call to call. The second
  component of every result below is the list of requests sent, in order.
\<close>

datatype request =
    GET_schema
  | POST_graphql string
  | DELETE_class string

record Response =
  status :: nat
  statusText :: string
  json_body :: "error + json"

definition ok :: "Response \<Rightarrow> bool" where
  "ok response = (200 \<le> Response.status response \<and> Response.status response \<le> 299)"

type_synonym server = "request list \<Rightarrow> request \<Rightarrow> error + Response"

definition fetch :: "server \<Rightarrow> request \<Rightarrow> request list \<Rightarrow> (error + Response) \<times> request list" where
  "fetch srv req log = (srv log req, log @ [req])"

section \<open>The data-access layer\<close>

definition executeQuery :: "server \<Rightarrow> string \<Rightarrow> request list \<Rightarrow> (error + json) \<times> request list" where
  "executeQuery srv queryStr log =
     (case fetch srv (POST_graphql queryStr) log of
        (Inl e, log') \<Rightarrow> (Inl e, log')
      | (Inr response, log') \<Rightarrow>
          if \<not> ok response
          then (Inl (Error (''Query failed: '' @ statusText response)), log')
          else (json_body response, log'))"

definition executeAggregateQuery :: "server \<Rightarrow> string \<Rightarrow> request list \<Rightarrow> (error + json) \<times> request list" where
  "executeAggregateQuery srv queryStr log =
     (case fetch srv (POST_graphql queryStr) log of
        (Inl e, log') \<Rightarrow> (Inl e, log')
      | (Inr response, log') \<Rightarrow>
          if \<not> ok response
          then (Inl (Error (''Query failed: '' @ statusText response)), log')
          else (json_body response, log'))"

text \<open>
  The aggregate query of \<^verbatim>\<open>getObjectCount\<close>, a template literal with the class name
  interpolated, and the reads \<^verbatim>\<open>aggregateResponse?.data.Aggregate[className]\<close> and
  \<^verbatim>\<open>aggregateData[0]?.meta?.count\<close>. A nullish response short-circuits the first
  chain; \<^verbatim>\<open>.data\<close> and \<^verbatim>\<open>.Aggregate\<close> are read without \<^verbatim>\<open>?.\<close>.
\<close>

definition aggregateQuery :: "jsval \<Rightarrow> string" where
  "aggregateQuery className =
     ''\<newline>  {\<newline>    Aggregate {\<newline>      '' @ js_toString className @
     '' {\<newline>        meta {\<newline>          count\<newline>        }\<newline>      }\<newline>    }\<newline>  }''"

definition Aggregate_entry :: "jsval \<Rightarrow> jsval \<Rightarrow> error + jsval" where
  "Aggregate_entry aggregateResponse className =
     (if js_nullish aggregateResponse then Inr None
      else and_then (js_member aggregateResponse ''data'') (\<lambda>d.
           and_then (js_member d ''Aggregate'') (\<lambda>a.
           js_member a (js_toString className))))"

definition meta_count :: "json \<Rightarrow> error + jsval" where
  "meta_count aggregateData =
     and_then (js_member (Some aggregateData) ''0'') (\<lambda>x.
     and_then (js_optional x ''meta'') (\<lambda>m.
     js_optional m ''count''))"

text \<open>
  \<^verbatim>\<open>getObjectCount\<close>: only the call of \<^verbatim>\<open>executeAggregateQuery\<close> stands inside the
  \<^verbatim>\<open>try\<close>, whose \<^verbatim>\<open>catch\<close> returns 0; the reads of the response come after it.
\<close>

definition getObjectCount :: "server \<Rightarrow> jsval \<Rightarrow> request list \<Rightarrow> (error + json) \<times> request list" where
  "getObjectCount srv className log =
     (case executeAggregateQuery srv (aggregateQuery className) log of
        (Inl e, log') \<Rightarrow> (Inr (JNum 0), log')
      | (Inr aggregateResponse, log') \<Rightarrow>
          (case Aggregate_entry (Some aggregateResponse) className of
             Inl e \<Rightarrow> (Inl e, log')
           | Inr entry \<Rightarrow>
               (case meta_count (js_coalesce entry (JArr [])) of
                  Inl e \<Rightarrow> (Inl e, log')
                | Inr c \<Rightarrow> (Inr (js_coalesce c (JNum 0)), log'))))"

text \<open>
  \<^verbatim>\<open>CollectionInfo\<close> and the entries of its \<^verbatim>\<open>properties\<close>; an optional field that
  is absent reads as \<^verbatim>\<open>undefined\<close>.
\<close>

record PropertyInfo =
  name :: jsval
  description :: jsval
  dataType :: jsval

record CollectionInfo =
  name :: jsval
  description :: jsval
  count :: json
  properties :: "PropertyInfo list"

text \<open>\<^verbatim>\<open>weavClass.properties?.map((p) => ({ name: p.name })) ?? []\<close>\<close>

definition property_entry :: "json \<Rightarrow> error + PropertyInfo" where
  "property_entry p =
     and_then (js_member (Some p) ''name'') (\<lambda>n.
       Inr \<lparr>PropertyInfo.name = n, description = None, dataType = None\<rparr>)"

definition class_properties :: "json \<Rightarrow> error + PropertyInfo list" where
  "class_properties weavClass =
     and_then (js_member (Some weavClass) ''properties'') (\<lambda>ps.
       case ps of
         None \<Rightarrow> Inr []
       | Some JNull \<Rightarrow> Inr []
       | Some (JArr xs) \<Rightarrow> map_err property_entry xs
       | Some other \<Rightarrow> Inl (TypeError ''weavClass.properties?.map is not a function''))"

text \<open>The object pushed for one class, given its count.\<close>

definition class_info :: "json \<Rightarrow> json \<Rightarrow> error + CollectionInfo" where
  "class_info weavClass n =
     and_then (js_member (Some weavClass) ''class'') (\<lambda>nm.
     and_then (js_member (Some weavClass) ''description'') (\<lambda>d.
     and_then (class_properties weavClass) (\<lambda>ps.
       Inr \<lparr>CollectionInfo.name = nm, description = d, count = n, properties = ps\<rparr>)))"

text \<open>
  The loop \<^verbatim>\<open>for (const weavClass of classes)\<close> of \<^verbatim>\<open>getCollections\<close>, with
  \<open>result\<close> the entries pushed so far: one count query per class, one after another,
  and the first thrown value ends the loop.
\<close>

fun collect :: "server \<Rightarrow> json list \<Rightarrow> CollectionInfo list \<Rightarrow> request list \<Rightarrow>
    (error + CollectionInfo list) \<times> request list" where
  "collect srv [] result log = (Inr result, log)"
| "collect srv (weavClass # classes) result log =
     (case js_member (Some weavClass) ''class'' of
        Inl e \<Rightarrow> (Inl e, log)
      | Inr className \<Rightarrow>
          (case getObjectCount srv className log of
             (Inl e, log') \<Rightarrow> (Inl e, log')
           | (Inr n, log') \<Rightarrow>
               (case class_info weavClass n of
                  Inl e \<Rightarrow> (Inl e, log')
                | Inr info \<Rightarrow> collect srv classes (result @ [info]) log')))"

definition getCollections :: "server \<Rightarrow> request list \<Rightarrow> (error + CollectionInfo list) \<times> request list" where
  "getCollections srv log =
     (case fetch srv GET_schema log of
        (Inl e, log') \<Rightarrow> (Inl e, log')
      | (Inr response, log') \<Rightarrow>
          if \<not> ok response
          then (Inl (Error (''Failed to fetch schema: '' @ statusText response)), log')
          else
            (case json_body response of
               Inl e \<Rightarrow> (Inl e, log')
             | Inr schema \<Rightarrow>
                 (case js_member (Some schema) ''classes'' of
                    Inl e \<Rightarrow> (Inl e, log')
                  | Inr cs \<Rightarrow>
                      (case js_iterate (js_coalesce cs (JArr [])) of
                         Inl e \<Rightarrow> (Inl e, log')
                       | Inr classes \<Rightarrow> collect srv classes [] log'))))"

text \<open>
  \<^verbatim>\<open>getCollectionData(className, properties)\<close>: the query is a template literal with
  the class name and the property names joined by newlines; the result is
  \<^verbatim>\<open>response.data.Get[className] || []\<close> once \<^verbatim>\<open>response?.data?.Get\<close> is truthy.
\<close>

record GetProperty =
  name :: jsval
  dataType :: jsval

definition GetQuery :: "string \<Rightarrow> GetProperty list \<Rightarrow> string" where
  "GetQuery className props =
     ''{\<newline>      Get {\<newline>        '' @ className @ '' {\<newline>          '' @
     js_join ''\<newline>'' (map GetProperty.name props) @
     ''\<newline>        }\<newline>      }\<newline>    }''"

definition data_Get :: "jsval \<Rightarrow> error + jsval" where
  "data_Get response =
     and_then (js_optional response ''data'') (\<lambda>d. js_optional d ''Get'')"

definition getCollectionData :: "server \<Rightarrow> string \<Rightarrow> GetProperty list \<Rightarrow> request list \<Rightarrow>
    (error + json) \<times> request list" where
  "getCollectionData srv className props log =
     (case executeQuery srv (GetQuery className props) log of
        (Inl e, log') \<Rightarrow> (Inl e, log')
      | (Inr response, log') \<Rightarrow>
          (case data_Get (Some response) of
             Inl e \<Rightarrow> (Inl e, log')
           | Inr g \<Rightarrow>
               if \<not> js_truthy g
               then (Inl (Error ''Invalid response structure from Weaviate''), log')
               else
                 (case js_member g className of
                    Inl e \<Rightarrow> (Inl e, log')
                  | Inr rows \<Rightarrow> (Inr (js_or rows (JArr [])), log'))))"

text \<open>
  Modelled from the spec: \<^verbatim>\<open>deleteCollection\<close> is imported by the route handler from
  \<^verbatim>\<open>@/lib/weaviate\<close> but is not among the source files. Section 4.6 of the spec:
  it delegates to the database's class-delete primitive, keyed by the class name, and
  fails by propagating whatever error the underlying call raises.
\<close>

definition deleteCollection :: "server \<Rightarrow> string \<Rightarrow> request list \<Rightarrow> (error + unit) \<times> request list" where
  "deleteCollection srv className log =
     (case fetch srv (DELETE_class className) log of
        (Inl e, log') \<Rightarrow> (Inl e, log')
      | (Inr response, log') \<Rightarrow> (Inr (), log'))"

section \<open>The route handler\<close>

text \<open>
  A request carries its URL as a string. \<^verbatim>\<open>new URL(request.url)\<close> is the platform's
  parser, taken as a parameter \<open>newURL\<close>: it throws or gives the path name and the
  query parameters (\<^verbatim>\<open>searchParams.get\<close> returns the first value of a key, or
  \<^verbatim>\<open>null\<close>). A reply is the status and the body given to \<^verbatim>\<open>NextResponse.json\<close>.
\<close>

record NextRequest =
  url :: string

record URL =
  pathname :: string
  searchParams :: "(string \<times> string) list"

record NextResponse =
  status :: nat
  body :: json

record SortDirective =
  property :: string
  order :: string

definition name_required :: NextResponse where
  "name_required =
     \<lparr>NextResponse.status = 400, body = JObj [(''error'', JStr ''Collection name is required'')]\<rparr>"

definition not_found :: NextResponse where
  "not_found =
     \<lparr>NextResponse.status = 404, body = JObj [(''error'', JStr ''Collection not found'')]\<rparr>"

definition failed :: "string \<Rightarrow> error \<Rightarrow> NextResponse" where
  "failed what e =
     \<lparr>NextResponse.status = 500,
      body = JObj [(''error'', JStr what), (''details'', JStr (details e))]\<rparr>"

text \<open>
  \<^verbatim>\<open>DELETE\<close>: the name is the last piece of the whole request URL split at
  \<^verbatim>\<open>/\<close>; an empty name (\<^verbatim>\<open>!name\<close>) is answered with 400.
\<close>

definition DELETE :: "server \<Rightarrow> NextRequest \<Rightarrow> request list \<Rightarrow> NextResponse \<times> request list" where
  "DELETE srv request log =
     (case js_pop (js_split CHR ''/'' (url request)) of
        None \<Rightarrow> (name_required, log)
      | Some nm \<Rightarrow>
          if nm = [] then (name_required, log)
          else
            (case deleteCollection srv nm log of
               (Inl e, log') \<Rightarrow> (failed ''Failed to delete collection'' e, log')
             | (Inr unit, log') \<Rightarrow>
                 (\<lparr>NextResponse.status = 200, body = JObj [(''success'', JBool True)]\<rparr>, log')))"

text \<open>
  \<^verbatim>\<open>sortProperty && sortOrder ? { property: sortProperty, order: sortOrder } : undefined\<close>
\<close>

definition sortDirective :: "string option \<Rightarrow> string option \<Rightarrow> SortDirective option" where
  "sortDirective sortProperty sortOrder =
     (case (sortProperty, sortOrder) of
        (Some p, Some ord) \<Rightarrow>
          if p \<noteq> [] \<and> ord \<noteq> [] then Some \<lparr>property = p, order = ord\<rparr> else None
      | other \<Rightarrow> None)"

text \<open>
  The handler calls \<^verbatim>\<open>getCollectionData\<close> with three arguments. The function
  declares two parameters and never reads \<^verbatim>\<open>arguments\<close>, so the call drops the third.
\<close>

definition getCollectionData3 :: "server \<Rightarrow> string \<Rightarrow> GetProperty list \<Rightarrow> SortDirective option \<Rightarrow>
    request list \<Rightarrow> (error + json) \<times> request list" where
  "getCollectionData3 srv className props directive log =
     getCollectionData srv className props log"

text \<open>
  \<^verbatim>\<open>collectionInfo.properties.map((prop) => ({ name: prop.name,
  dataType: prop.dataType || ['string'] }))\<close>
\<close>

definition requested_property :: "PropertyInfo \<Rightarrow> GetProperty" where
  "requested_property prop =
     \<lparr>GetProperty.name = PropertyInfo.name prop,
      dataType = Some (js_or (PropertyInfo.dataType prop) (JArr [JStr ''string'']))\<rparr>"

text \<open>
  \<^verbatim>\<open>GET\<close>: the name is the last piece of the URL's path name;
  \<^verbatim>\<open>collections.find((c) => c.name === name)\<close> picks the first entry whose name is
  that string. \<open>GET_calling\<close> is the handler with the function it calls for the rows
  as a parameter, so that the arguments of that call can be stated; the handler itself
  calls the imported \<^verbatim>\<open>getCollectionData\<close>.
\<close>

type_synonym rows_reader =
  "string \<Rightarrow> GetProperty list \<Rightarrow> SortDirective option \<Rightarrow> request list \<Rightarrow>
     (error + json) \<times> request list"

definition GET_calling :: "rows_reader \<Rightarrow> (string \<Rightarrow> error + URL) \<Rightarrow> server \<Rightarrow> NextRequest \<Rightarrow>
    request list \<Rightarrow> NextResponse \<times> request list" where
  "GET_calling reader newURL srv request log =
     (case newURL (url request) of
        Inl e \<Rightarrow> (failed ''Failed to fetch data'' e, log)
      | Inr u \<Rightarrow>
          (let sortProperty = map_of (searchParams u) ''sortProperty'';
               sortOrder = map_of (searchParams u) ''sortOrder''
           in case js_pop (js_split CHR ''/'' (pathname u)) of
                None \<Rightarrow> (name_required, log)
              | Some nm \<Rightarrow>
                  if nm = [] then (name_required, log)
                  else
                    (case getCollections srv log of
                       (Inl e, log') \<Rightarrow> (failed ''Failed to fetch data'' e, log')
                     | (Inr collections, log') \<Rightarrow>
                         (case find (\<lambda>c. CollectionInfo.name c = Some (JStr nm)) collections of
                            None \<Rightarrow> (not_found, log')
                          | Some collectionInfo \<Rightarrow>
                              (case reader nm
                                      (map requested_property (properties collectionInfo))
                                      (sortDirective sortProperty sortOrder) log' of
                                 (Inl e, log'') \<Rightarrow> (failed ''Failed to fetch data'' e, log'')
                               | (Inr rows, log'') \<Rightarrow>
                                   (\<lparr>NextResponse.status = 200, body = JObj [(''data'', rows)]\<rparr>,
                                    log''))))))"

definition GET :: "(string \<Rightarrow> error + URL) \<Rightarrow> server \<Rightarrow> NextRequest \<Rightarrow> request list \<Rightarrow>
    NextResponse \<times> request list" where
  "GET newURL srv request log = GET_calling (getCollectionData3 srv) newURL srv request log"

section \<open>Schema responses and answers to queries\<close>

text \<open>
  The vocabulary of the statements below. \<open>field v k\<close> is the member \<open>k\<close> of a JSON
  value, \<^verbatim>\<open>undefined\<close> where the read would throw; \<open>opt_field\<close> is the same read of a
  value that may be \<^verbatim>\<open>undefined\<close>. \<open>schema_declares srv log classes\<close>: asked after
  the requests \<open>log\<close>, the schema endpoint answers with a success status and a body
  whose \<^verbatim>\<open>classes\<close> member is the array \<open>classes\<close>. A class declaration is well
  formed when it is a JSON object whose \<^verbatim>\<open>properties\<close> member, if it has one, is
  \<^verbatim>\<open>null\<close> or an array without \<^verbatim>\<open>null\<close> elements (the declared type
  \<^verbatim>\<open>WeaviateClass\<close> asks for more: an array of objects).
\<close>

definition field :: "json \<Rightarrow> string \<Rightarrow> jsval" where
  "field v k = (case js_member (Some v) k of Inl e \<Rightarrow> None | Inr x \<Rightarrow> x)"

definition opt_field :: "jsval \<Rightarrow> string \<Rightarrow> jsval" where
  "opt_field v k = (case v of None \<Rightarrow> None | Some j \<Rightarrow> field j k)"

fun class_declaration :: "json \<Rightarrow> bool" where
  "class_declaration (JObj kvs) =
     (case map_of kvs ''properties'' of
        None \<Rightarrow> True
      | Some JNull \<Rightarrow> True
      | Some (JArr ps) \<Rightarrow> list_all (\<lambda>p. p \<noteq> JNull) ps
      | Some other \<Rightarrow> False)"
| "class_declaration other = False"

definition declared_property_names :: "json \<Rightarrow> jsval list" where
  "declared_property_names weavClass =
     (case field weavClass ''properties'' of
        Some (JArr ps) \<Rightarrow> map (\<lambda>p. field p ''name'') ps
      | other \<Rightarrow> [])"

definition schema_declares :: "server \<Rightarrow> request list \<Rightarrow> json list \<Rightarrow> bool" where
  "schema_declares srv log classes =
     (case srv log GET_schema of
        Inl e \<Rightarrow> False
      | Inr response \<Rightarrow>
          ok response \<and>
          (case json_body response of
             Inl e \<Rightarrow> False
           | Inr schema \<Rightarrow> field schema ''classes'' = Some (JArr classes)))"

text \<open>
  The requests of one run of \<^verbatim>\<open>getCollections\<close>, started after the requests
  \<open>log\<close>: the schema fetch, then the count query of each class in the order of the
  declarations. \<open>run_history log classes i\<close> is what has been sent when the count
  query of the class at position \<open>i\<close> goes out.
\<close>

definition count_request :: "json \<Rightarrow> request" where
  "count_request weavClass = POST_graphql (aggregateQuery (field weavClass ''class''))"

definition run_history :: "request list \<Rightarrow> json list \<Rightarrow> nat \<Rightarrow> request list" where
  "run_history log classes i = log @ GET_schema # map count_request (take i classes)"

text \<open>
  An aggregate answer has the declared shape \<^verbatim>\<open>AggregateResponse\<close>, as far as
  \<^verbatim>\<open>getObjectCount\<close> relies on it, when its body has a \<^verbatim>\<open>data\<close> member with an
  \<^verbatim>\<open>Aggregate\<close> member, neither of them \<^verbatim>\<open>null\<close>. Sent after the requests \<open>h\<close>,
  the count query of a class fails when \<^verbatim>\<open>executeAggregateQuery\<close> throws, and settles
  when it fails or is answered in that shape.
\<close>

definition aggregate_envelope :: "json \<Rightarrow> bool" where
  "aggregate_envelope b =
     (case field b ''data'' of
        None \<Rightarrow> False
      | Some d \<Rightarrow> d \<noteq> JNull \<and>
          (case field d ''Aggregate'' of None \<Rightarrow> False | Some a \<Rightarrow> a \<noteq> JNull))"

definition count_query_fails :: "server \<Rightarrow> jsval \<Rightarrow> request list \<Rightarrow> bool" where
  "count_query_fails srv className h =
     isl (fst (executeAggregateQuery srv (aggregateQuery className) h))"

definition count_query_settles :: "server \<Rightarrow> jsval \<Rightarrow> request list \<Rightarrow> bool" where
  "count_query_settles srv className h =
     (case fst (executeAggregateQuery srv (aggregateQuery className) h) of
        Inl e \<Rightarrow> True
      | Inr b \<Rightarrow> aggregate_envelope b)"

text \<open>
  The count that an answer of the database reports for a class, in the words of the
  spec (4.3): \<^verbatim>\<open>data.Aggregate[className][0].meta.count\<close> of the body, 0 where that
  is missing, and 0 when the query failed (a rejected call, a status that is no
  success, a body that does not parse).
\<close>

definition reported_count :: "json \<Rightarrow> jsval \<Rightarrow> json" where
  "reported_count b className =
     js_coalesce
       (opt_field (opt_field (opt_field
          (Some (js_coalesce
             (opt_field (opt_field (opt_field (Some b) ''data'') ''Aggregate'')
                (js_toString className))
             (JArr [])))
          ''0'') ''meta'') ''count'')
       (JNum 0)"

definition answered_count :: "error + Response \<Rightarrow> jsval \<Rightarrow> json" where
  "answered_count answer className =
     (case answer of
        Inl e \<Rightarrow> JNum 0
      | Inr response \<Rightarrow>
          if \<not> ok response then JNum 0
          else (case json_body response of
                  Inl e \<Rightarrow> JNum 0
                | Inr b \<Rightarrow> reported_count b className))"

text \<open>
  An answer to a \<^verbatim>\<open>Get\<close> query lacks its envelope when the response, its \<^verbatim>\<open>data\<close>
  or the \<^verbatim>\<open>Get\<close> of its \<^verbatim>\<open>data\<close> is missing (\<^verbatim>\<open>null\<close> or absent). In a
  well-formed envelope every member of \<^verbatim>\<open>data.Get\<close> is an array of rows.
\<close>

definition lacks_Get_envelope :: "json \<Rightarrow> bool" where
  "lacks_Get_envelope response =
     (response = JNull \<or>
      (case field response ''data'' of
         None \<Rightarrow> True
       | Some d \<Rightarrow> d = JNull \<or> js_nullish (field d ''Get'')))"


section \<open>Mocked collaborators\<close>

text \<open>
  A database with the classes \<^verbatim>\<open>Article\<close> (42 objects, one property \<^verbatim>\<open>title\<close> whose
  declaration also gives a data type and a description) and \<^verbatim>\<open>Author\<close>, whose
  aggregate query is rejected; it answers the \<^verbatim>\<open>Get\<close> query for the titles of
  \<^verbatim>\<open>Article\<close> with one row. A database that is unavailable, one that answers every
  query with a GraphQL error body, and one that answers every query with an envelope
  whose \<^verbatim>\<open>Get\<close> is the empty object. Each answers a request the same way whatever
  was sent before. \<open>mock_newURL\<close> is the platform's parse of the URLs used below, and
  \<open>dataTypes_probe\<close> a reader of rows that returns the data types it is called with.
\<close>

definition reply :: "json \<Rightarrow> Response" where
  "reply b = \<lparr>Response.status = 200, statusText = ''OK'', json_body = Inr b\<rparr>"

definition mock_classes :: "json list" where
  "mock_classes =
     [JObj [(''class'', JStr ''Article''), (''description'', JStr ''News''),
            (''properties'', JArr [JObj [(''name'', JStr ''title''),
                                         (''dataType'', JArr [JStr ''text'']),
                                         (''description'', JStr ''Headline'')]])],
      JObj [(''class'', JStr ''Author'')]]"

definition mock_server :: server where
  "mock_server log req =
     (case req of
        GET_schema \<Rightarrow> Inr (reply (JObj [(''classes'', JArr mock_classes)]))
      | POST_graphql q \<Rightarrow>
          if q = aggregateQuery (Some (JStr ''Article''))
          then Inr (reply (JObj [(''data'', JObj [(''Aggregate'',
                  JObj [(''Article'', JArr [JObj [(''meta'', JObj [(''count'', JNum 42)])]])])])]))
          else if q = GetQuery ''Article'' [\<lparr>GetProperty.name = Some (JStr ''title''), dataType = None\<rparr>]
          then Inr (reply (JObj [(''data'', JObj [(''Get'',
                  JObj [(''Article'', JArr [JObj [(''title'', JStr ''A'')]])])])]))
          else Inl (TypeError ''fetch failed'')
      | DELETE_class n \<Rightarrow> Inr (reply JNull))"

definition unavailable :: server where
  "unavailable log req =
     Inr \<lparr>Response.status = 503, statusText = ''Service Unavailable'', json_body = Inr JNull\<rparr>"

definition errors_only :: server where
  "errors_only log req =
     Inr (reply (JObj [(''errors'', JArr [JObj [(''message'', JStr ''Cannot query field'')]])]))"


definition mock_newURL :: "string \<Rightarrow> error + URL" where
  "mock_newURL s =
     (if s = ''http://localhost:3000/api/collection/Article''
      then Inr \<lparr>pathname = ''/api/collection/Article'', searchParams = []\<rparr>
      else if s = ''http://localhost:3000/api/collection/Article?sortProperty=title&sortOrder=desc''
      then Inr \<lparr>pathname = ''/api/collection/Article'',
                 searchParams = [(''sortProperty'', ''title''), (''sortOrder'', ''desc'')]\<rparr>
      else if s = ''http://localhost:3000/api/collection/Book?x=1''
      then Inr \<lparr>pathname = ''/api/collection/Book'', searchParams = [(''x'', ''1'')]\<rparr>
      else if s = ''http://localhost:3000/api/collection/Article?x=1''
      then Inr \<lparr>pathname = ''/api/collection/Article'', searchParams = [(''x'', ''1'')]\<rparr>
      else Inl (TypeError ''Invalid URL''))"

definition dataTypes_probe :: rows_reader where
  "dataTypes_probe className props directive log =
     (Inr (JArr (map (\<lambda>q. js_coalesce (GetProperty.dataType q) JNull) props)), log)"

text \<open>
  A database like the mocked one, except that the aggregate query of \<^verbatim>\<open>Author\<close> is
  rejected only the first time it is sent and answered with a count of 7 from then on.
\<close>

definition flaky_server :: server where
  "flaky_server log req =
     (if req = POST_graphql (aggregateQuery (Some (JStr ''Author''))) \<and> req \<in> set log
      then Inr (reply (JObj [(''data'', JObj [(''Aggregate'',
              JObj [(''Author'', JArr [JObj [(''meta'', JObj [(''count'', JNum 7)])]])])])]))
      else mock_server log req)"

section \<open>Member reads\<close>

text \<open>
  None of the keys that the code reads by name is a member of a built-in prototype,
  so such a read of an object is its own member.
\<close>

lemma static_keys [simp]:
  "inherited Object_prototype ''data'' = None"
  "inherited Object_prototype ''Get'' = None"
  "inherited Object_prototype ''Aggregate'' = None"
  "inherited Object_prototype ''meta'' = None"
  "inherited Object_prototype ''count'' = None"
  "inherited Object_prototype ''class'' = None"
  "inherited Object_prototype ''classes'' = None"
  "inherited Object_prototype ''description'' = None"
  "inherited Object_prototype ''properties'' = None"
  "inherited Object_prototype ''name'' = None"
  "inherited Object_prototype ''0'' = None"
  "inherited (Array_prototype @ Object_prototype) ''0'' = None"
  by (simp_all add: inherited_def Object_prototype_def Array_prototype_def)

lemma field_object:
  "inherited Object_prototype k = None \<Longrightarrow> field (JObj kvs) k = map_of kvs k"
  by (cases "map_of kvs k") (simp_all add: field_def)

lemma field_JNull [simp]: "field JNull k = None"
  by (simp add: field_def)

lemma js_member_field:
  assumes "js_member v k = Inr r"
  shows "r = opt_field v k"
proof (cases v)
  case None
  with assms show ?thesis by simp
next
  case (Some j)
  with assms show ?thesis by (simp add: opt_field_def field_def)
qed

lemma js_member_defined:
  assumes "\<not> js_nullish v"
  shows "js_member v k = Inr (opt_field v k)"
proof (cases v)
  case None
  with assms show ?thesis by (simp add: js_nullish_def)
next
  case (Some j)
  with assms show ?thesis
    by (cases j) (simp_all add: js_nullish_def opt_field_def field_def)
qed

lemma js_optional_field: "js_optional v k = Inr (opt_field v k)"
proof (cases "js_nullish v")
  case True
  then show ?thesis by (auto simp: js_optional_def js_nullish_def opt_field_def)
next
  case False
  then show ?thesis by (simp add: js_optional_def js_member_defined)
qed

lemma js_coalesce_not_null: "b \<noteq> JNull \<Longrightarrow> js_coalesce v b \<noteq> JNull"
  by (cases "(v, b)" rule: js_coalesce.cases) simp_all

lemma meta_count_field:
  assumes "aggregateData \<noteq> JNull"
  shows "meta_count aggregateData =
           Inr (opt_field (opt_field (opt_field (Some aggregateData) ''0'') ''meta'') ''count'')"
  using assms
  by (simp add: meta_count_def and_then_def js_optional_field js_member_defined js_nullish_def)

lemma Aggregate_entry_field:
  assumes "Aggregate_entry (Some b) className = Inr entry"
  shows "entry = opt_field (opt_field (opt_field (Some b) ''data'') ''Aggregate'')
                   (js_toString className)"
proof (cases "b = JNull")
  case True
  with assms show ?thesis
    by (simp add: Aggregate_entry_def js_nullish_def opt_field_def)
next
  case False
  with assms obtain d a where
    d: "js_member (Some b) ''data'' = Inr d" and a: "js_member d ''Aggregate'' = Inr a"
    and e: "js_member a (js_toString className) = Inr entry"
    by (auto simp: Aggregate_entry_def js_nullish_def and_then_def split: sum.splits)
  from js_member_field [OF d] js_member_field [OF a] js_member_field [OF e]
  show ?thesis by simp
qed

lemma Aggregate_entry_defined:
  assumes "aggregate_envelope b"
  shows "\<exists>entry. Aggregate_entry (Some b) className = Inr entry"
proof -
  from assms obtain d where d: "field b ''data'' = Some d" "d \<noteq> JNull"
    by (auto simp: aggregate_envelope_def split: option.splits)
  with assms obtain a where a: "field d ''Aggregate'' = Some a" "a \<noteq> JNull"
    by (auto simp: aggregate_envelope_def split: option.splits)
  from d have b: "b \<noteq> JNull" by auto
  with d a show ?thesis
    by (simp add: Aggregate_entry_def js_nullish_def and_then_def js_member_defined opt_field_def)
qed

lemma data_Get_field:
  "data_Get (Some response) = Inr (opt_field (opt_field (Some response) ''data'') ''Get'')"
  by (simp add: data_Get_def and_then_def js_optional_field)

section \<open>Splitting a URL\<close>

lemma js_split_not_empty: "js_split sep s \<noteq> []"
  by (induction s) (auto split: list.splits)

lemma js_split_append:
  "js_split sep (xs @ sep # ys) = js_split sep xs @ js_split sep ys"
proof (induction xs)
  case Nil
  show ?case by simp
next
  case (Cons c xs)
  obtain w ws where "js_split sep xs = w # ws"
    using js_split_not_empty [of sep xs] by (cases "js_split sep xs") auto
  with Cons show ?case by simp
qed

lemma js_split_no_separator: "sep \<notin> set s \<Longrightarrow> js_split sep s = [s]"
  by (induction s) auto

lemma last_piece:
  assumes "sep \<notin> set piece"
  shows "js_pop (js_split sep (base @ sep # piece)) = Some piece"
  using assms
  by (simp add: js_pop_def js_split_append js_split_not_empty js_split_no_separator)

lemma no_name_segment: "js_pop (js_split sep (base @ [sep])) = Some []"
  by (simp add: js_pop_def js_split_append js_split_not_empty)

section \<open>The object count\<close>

lemma getObjectCount_masks:
  assumes "executeAggregateQuery srv (aggregateQuery className) log = (Inl e, log')"
  shows "getObjectCount srv className log = (Inr (JNum 0), log')"
  using assms by (simp add: getObjectCount_def)

lemma executeAggregateQuery_sends:
  "snd (executeAggregateQuery srv q log) = log @ [POST_graphql q]"
  by (simp add: executeAggregateQuery_def fetch_def split: sum.splits)

lemma getObjectCount_sends:
  "snd (getObjectCount srv className log) = log @ [POST_graphql (aggregateQuery className)]"
  using executeAggregateQuery_sends [of srv "aggregateQuery className" log]
  by (auto simp: getObjectCount_def split: prod.splits sum.splits)

lemma getObjectCount_returns:
  assumes "count_query_settles srv className log"
  shows "\<exists>n. getObjectCount srv className log =
           (Inr n, log @ [POST_graphql (aggregateQuery className)])"
proof -
  obtain r log1 where q: "executeAggregateQuery srv (aggregateQuery className) log = (r, log1)"
    by (cases "executeAggregateQuery srv (aggregateQuery className) log")
  have "\<exists>n. fst (getObjectCount srv className log) = Inr n"
  proof (cases r)
    case (Inl e)
    with q show ?thesis by (simp add: getObjectCount_def)
  next
    case (Inr b)
    with q assms have "aggregate_envelope b"
      by (simp add: count_query_settles_def)
    then obtain entry where entry: "Aggregate_entry (Some b) className = Inr entry"
      using Aggregate_entry_defined by blast
    from q Inr entry show ?thesis
      by (simp add: getObjectCount_def meta_count_field js_coalesce_not_null)
  qed
  with getObjectCount_sends [of srv className log] show ?thesis
    by (cases "getObjectCount srv className log") auto
qed

lemma getObjectCount_answered:
  assumes "getObjectCount srv className log = (Inr n, log')"
  shows "n = answered_count (srv log (POST_graphql (aggregateQuery className))) className"
proof (cases "srv log (POST_graphql (aggregateQuery className))")
  case (Inl e)
  with assms show ?thesis
    by (simp add: getObjectCount_def executeAggregateQuery_def fetch_def answered_count_def)
next
  case (Inr response)
  show ?thesis
  proof (cases "ok response")
    case False
    with Inr assms show ?thesis
      by (simp add: getObjectCount_def executeAggregateQuery_def fetch_def answered_count_def)
  next
    case True
    show ?thesis
    proof (cases "json_body response")
      case (Inl e)
      with Inr True assms show ?thesis
        by (simp add: getObjectCount_def executeAggregateQuery_def fetch_def answered_count_def)
    next
      case b: (Inr b)
      with Inr True assms obtain entry where
        entry: "Aggregate_entry (Some b) className = Inr entry"
        and n: "meta_count (js_coalesce entry (JArr [])) = Inr c \<Longrightarrow> n = js_coalesce c (JNum 0)" for c
        by (auto simp: getObjectCount_def executeAggregateQuery_def fetch_def split: sum.splits)
      from n [OF meta_count_field [OF js_coalesce_not_null]] Aggregate_entry_field [OF entry]
      have "n = reported_count b className"
        by (simp add: reported_count_def)
      with Inr True b show ?thesis by (simp add: answered_count_def)
    qed
  qed
qed

lemma getObjectCount_of_failing:
  assumes "count_query_fails srv className h"
      and "getObjectCount srv className h = (Inr n, h')"
  shows "n = JNum 0"
proof -
  from assms(1) obtain e l where
    "executeAggregateQuery srv (aggregateQuery className) h = (Inl e, l)"
    by (cases "executeAggregateQuery srv (aggregateQuery className) h")
      (auto simp: count_query_fails_def isl_def)
  from getObjectCount_masks [OF this] assms(2) show ?thesis by simp
qed

lemma count_query_fails_settles:
  assumes "count_query_fails srv className h"
  shows "count_query_settles srv className h"
  using assms
  by (cases "fst (executeAggregateQuery srv (aggregateQuery className) h)")
    (simp_all add: count_query_fails_def count_query_settles_def)


section \<open>The collection catalogue\<close>

lemma property_entry_fields:
  assumes "property_entry p = Inr y"
  shows "PropertyInfo.name y = field p ''name'' \<and>
         PropertyInfo.description y = None \<and> PropertyInfo.dataType y = None"
  using assms
  by (auto simp: property_entry_def and_then_def field_def split: sum.splits)

lemma map_err_property_entry_fields:
  assumes "map_err property_entry ps = Inr props"
  shows "map PropertyInfo.name props = map (\<lambda>p. field p ''name'') ps \<and>
         (\<forall>y \<in> set props. PropertyInfo.description y = None \<and> PropertyInfo.dataType y = None)"
  using assms
proof (induction ps arbitrary: props)
  case Nil
  then show ?case by simp
next
  case (Cons x xs)
  from Cons.prems obtain y ys where
    y: "property_entry x = Inr y" and ys: "map_err property_entry xs = Inr ys"
    and props: "props = y # ys"
    by (auto split: sum.splits)
  from property_entry_fields [OF y] Cons.IH [OF ys] props show ?case by simp
qed

lemma map_err_property_entry_defined:
  assumes "list_all (\<lambda>p. p \<noteq> JNull) ps"
  shows "\<exists>props. map_err property_entry ps = Inr props"
  using assms
proof (induction ps)
  case Nil
  show ?case by simp
next
  case (Cons p ps)
  then obtain props where "map_err property_entry ps = Inr props" by auto
  moreover from Cons.prems have "\<exists>y. property_entry p = Inr y"
    by (simp add: property_entry_def and_then_def js_member_defined js_nullish_def)
  ultimately show ?case by auto
qed

lemma class_info_fields:
  assumes "class_info weavClass n = Inr info"
  shows "CollectionInfo.name info = field weavClass ''class'' \<and>
         CollectionInfo.description info = field weavClass ''description'' \<and>
         count info = n \<and>
         map PropertyInfo.name (properties info) = declared_property_names weavClass \<and>
         (\<forall>p \<in> set (properties info).
            PropertyInfo.description p = None \<and> PropertyInfo.dataType p = None)"
proof -
  from assms obtain nm d props where
    nm: "js_member (Some weavClass) ''class'' = Inr nm"
    and d: "js_member (Some weavClass) ''description'' = Inr d"
    and props: "class_properties weavClass = Inr props"
    and info: "info = \<lparr>CollectionInfo.name = nm, description = d, count = n, properties = props\<rparr>"
    by (auto simp: class_info_def and_then_def split: sum.splits)
  from props obtain v where v: "js_member (Some weavClass) ''properties'' = Inr v"
    by (auto simp: class_properties_def and_then_def split: sum.splits)
  have "map PropertyInfo.name props = declared_property_names weavClass \<and>
        (\<forall>p \<in> set props. PropertyInfo.description p = None \<and> PropertyInfo.dataType p = None)"
  proof (cases "\<exists>ps. v = Some (JArr ps)")
    case True
    then obtain ps where ps: "v = Some (JArr ps)" by blast
    with props v have "map_err property_entry ps = Inr props"
      by (simp add: class_properties_def and_then_def)
    from map_err_property_entry_fields [OF this] v ps show ?thesis
      by (simp add: declared_property_names_def field_def)
  next
    case False
    with props v have "props = []"
      by (auto simp: class_properties_def and_then_def split: option.splits json.splits)
    moreover from False v have "declared_property_names weavClass = []"
      by (auto simp: declared_property_names_def field_def split: option.splits json.splits)
    ultimately show ?thesis by simp
  qed
  with nm d info show ?thesis by (simp add: field_def)
qed

lemma class_info_defined:
  assumes "class_declaration weavClass"
  shows "\<exists>info. class_info weavClass n = Inr info"
proof -
  from assms obtain kvs where kvs: "weavClass = JObj kvs"
    by (cases weavClass) simp_all
  have ps: "js_member (Some weavClass) ''properties'' = Inr (map_of kvs ''properties'')"
    using kvs by (cases "map_of kvs ''properties''") simp_all
  have "\<exists>props. class_properties weavClass = Inr props"
  proof (cases "map_of kvs ''properties''")
    case None
    with ps show ?thesis by (simp add: class_properties_def and_then_def)
  next
    case (Some v)
    show ?thesis
    proof (cases v)
      case (JArr xs)
      with Some kvs assms have "list_all (\<lambda>p. p \<noteq> JNull) xs" by simp
      from map_err_property_entry_defined [OF this] Some JArr ps show ?thesis
        by (simp add: class_properties_def and_then_def)
    qed (use Some kvs assms ps in \<open>simp_all add: class_properties_def and_then_def\<close>)
  qed
  with kvs show ?thesis
    by (auto simp: class_info_def and_then_def)
qed

lemma collect_returns:
  assumes "list_all class_declaration classes"
      and "\<forall>i < length classes.
             count_query_settles srv (field (classes ! i) ''class'')
               (h @ map count_request (take i classes))"
  shows "\<exists>collections log'. collect srv classes acc h = (Inr collections, log')"
  using assms
proof (induction classes arbitrary: acc h)
  case Nil
  show ?case by simp
next
  case (Cons c cs)
  from Cons.prems(1) have decl: "class_declaration c" by simp
  then obtain kvs where kvs: "c = JObj kvs" by (cases c) simp_all
  then have cls: "js_member (Some c) ''class'' = Inr (field c ''class'')"
    by (simp add: field_def)
  from Cons.prems(2) have "count_query_settles srv (field c ''class'') h" by auto
  from getObjectCount_returns [OF this] obtain n where
    n: "getObjectCount srv (field c ''class'') h = (Inr n, h @ [count_request c])"
    by (auto simp: count_request_def)
  from class_info_defined [OF decl] obtain info where info: "class_info c n = Inr info"
    by blast
  have "\<forall>i < length cs.
          count_query_settles srv (field (cs ! i) ''class'')
            ((h @ [count_request c]) @ map count_request (take i cs))"
  proof (intro allI impI)
    fix i
    assume "i < length cs"
    with Cons.prems(2) [rule_format, of "Suc i"]
    show "count_query_settles srv (field (cs ! i) ''class'')
            ((h @ [count_request c]) @ map count_request (take i cs))"
      by simp
  qed
  with Cons.IH [of "h @ [count_request c]" "acc @ [info]"] Cons.prems(1)
  obtain collections log' where
    "collect srv cs (acc @ [info]) (h @ [count_request c]) = (Inr collections, log')"
    by auto
  with cls n info show ?case by simp
qed

lemma collect_returned:
  assumes "collect srv classes acc h = (Inr collections, log')"
  shows "log' = h @ map count_request classes \<and>
         (\<exists>infos. collections = acc @ infos \<and> length infos = length classes \<and>
            (\<forall>i < length classes.
               (\<exists>n. class_info (classes ! i) n = Inr (infos ! i)) \<and>
               count (infos ! i) =
                 answered_count
                   (srv (h @ map count_request (take i classes)) (count_request (classes ! i)))
                   (field (classes ! i) ''class'')))"
  using assms
proof (induction classes arbitrary: acc h)
  case Nil
  then show ?case by simp
next
  case (Cons c cs)
  from Cons.prems obtain className n log1 info where
    cls: "js_member (Some c) ''class'' = Inr className"
    and n: "getObjectCount srv className h = (Inr n, log1)"
    and info: "class_info c n = Inr info"
    and rest: "collect srv cs (acc @ [info]) log1 = (Inr collections, log')"
    by (auto split: sum.splits prod.splits)
  from cls have name: "field c ''class'' = className" by (simp add: field_def)
  from getObjectCount_sends [of srv className h] n name
  have log1: "log1 = h @ [count_request c]" by (simp add: count_request_def)
  from getObjectCount_answered [OF n] name
  have answered: "n = answered_count (srv h (count_request c)) (field c ''class'')"
    by (simp add: count_request_def)
  from class_info_fields [OF info] have count: "count info = n" by simp
  from Cons.IH [OF rest] log1 obtain infos where
    log': "log' = h @ map count_request (c # cs)"
    and infos: "collections = (acc @ [info]) @ infos" "length infos = length cs"
    and each: "\<forall>i < length cs.
          (\<exists>n. class_info (cs ! i) n = Inr (infos ! i)) \<and>
          count (infos ! i) =
            answered_count
              (srv ((h @ [count_request c]) @ map count_request (take i cs)) (count_request (cs ! i)))
              (field (cs ! i) ''class'')"
    by auto
  have "(\<exists>n. class_info ((c # cs) ! i) n = Inr ((info # infos) ! i)) \<and>
        count ((info # infos) ! i) =
          answered_count
            (srv (h @ map count_request (take i (c # cs))) (count_request ((c # cs) ! i)))
            (field ((c # cs) ! i) ''class'')"
    if i: "i < length (c # cs)" for i
  proof (cases i)
    case 0
    with info count answered show ?thesis by auto
  next
    case (Suc j)
    with i each [rule_format, of j] show ?thesis by simp
  qed
  with log' infos show ?case
    by (intro conjI exI [of _ "info # infos"]) simp_all
qed

lemma schema_declares_loop:
  assumes "schema_declares srv log classes"
  shows "getCollections srv log = collect srv classes [] (log @ [GET_schema])"
proof -
  from assms obtain response schema where
    r: "srv log GET_schema = Inr response" "ok response"
       "json_body response = Inr schema"
       "field schema ''classes'' = Some (JArr classes)"
    by (auto simp: schema_declares_def split: sum.splits)
  from r(4) have "js_member (Some schema) ''classes'' = Inr (Some (JArr classes))"
    by (auto simp: field_def split: sum.splits)
  with r show ?thesis
    by (simp add: getCollections_def fetch_def)
qed

lemma getCollections_returns:
  assumes "schema_declares srv log classes"
      and "list_all class_declaration classes"
      and "\<forall>i < length classes.
             count_query_settles srv (field (classes ! i) ''class'') (run_history log classes i)"
  shows "\<exists>collections log'. getCollections srv log = (Inr collections, log')"
  using collect_returns [OF assms(2), of srv "log @ [GET_schema]" "[]"] assms(3)
  by (simp add: schema_declares_loop [OF assms(1)] run_history_def)

lemma getCollections_returned:
  assumes "schema_declares srv log classes"
      and "getCollections srv log = (Inr collections, log')"
  shows "length collections = length classes \<and>
         log' = run_history log classes (length classes) \<and>
         (\<forall>i < length classes.
            (\<exists>n. class_info (classes ! i) n = Inr (collections ! i)) \<and>
            count (collections ! i) =
              answered_count (srv (run_history log classes i) (count_request (classes ! i)))
                (field (classes ! i) ''class''))"
  using collect_returned [of srv classes "[]" "log @ [GET_schema]" collections log'] assms(2)
  by (simp add: schema_declares_loop [OF assms(1)] run_history_def)

lemma getCollections_only_names:
  assumes "getCollections srv log = (Inr collections, log')"
      and "info \<in> set collections"
  shows "\<forall>p \<in> set (properties info).
           PropertyInfo.description p = None \<and> PropertyInfo.dataType p = None"
proof -
  from assms(1) obtain classes log1 where
    "collect srv classes [] log1 = (Inr collections, log')"
    by (auto simp: getCollections_def split: sum.splits prod.splits if_splits)
  from collect_returned [OF this] have len: "length collections = length classes"
    and each: "\<forall>i < length classes. \<exists>n. class_info (classes ! i) n = Inr (collections ! i)"
    by auto
  from assms(2) obtain i where "i < length collections" "info = collections ! i"
    by (auto simp: in_set_conv_nth)
  with len each obtain n where "class_info (classes ! i) n = Inr info" by auto
  from class_info_fields [OF this] show ?thesis by simp
qed


lemma mock_classes_well_formed: "list_all class_declaration mock_classes"
  by (simp add: mock_classes_def)




lemma mock_catalogue:
  "getCollections mock_server [] =
     (Inr [\<lparr>CollectionInfo.name = Some (JStr ''Article''), description = Some (JStr ''News''),
             count = JNum 42,
             properties = [\<lparr>PropertyInfo.name = Some (JStr ''title''), description = None,
                             dataType = None\<rparr>]\<rparr>,
           \<lparr>CollectionInfo.name = Some (JStr ''Author''), description = None,
             count = JNum 0, properties = []\<rparr>],
      [GET_schema, POST_graphql (aggregateQuery (Some (JStr ''Article''))),
       POST_graphql (aggregateQuery (Some (JStr ''Author'')))])"
  by (simp add: getCollections_def fetch_def mock_server_def reply_def ok_def mock_classes_def
      getObjectCount_def executeAggregateQuery_def Aggregate_entry_def meta_count_def
      js_nullish_def js_optional_def and_then_def class_info_def class_properties_def
      property_entry_def aggregateQuery_def js_toString_def GetQuery_def js_join_def nat_str.simps)

lemma flaky_facts:
  "schema_declares flaky_server [] mock_classes"
  "count_query_settles flaky_server (Some (JStr ''Article'')) (run_history [] mock_classes 0)"
  "count_query_fails flaky_server (Some (JStr ''Author'')) (run_history [] mock_classes 1)"
  "\<not> count_query_fails flaky_server (Some (JStr ''Author'')) (run_history [] mock_classes 2)"
  by (simp_all add: schema_declares_def count_query_settles_def count_query_fails_def
      flaky_server_def mock_server_def reply_def ok_def field_def run_history_def
      count_request_def mock_classes_def executeAggregateQuery_def fetch_def
      aggregate_envelope_def aggregateQuery_def js_toString_def GetQuery_def js_join_def
      js_nullish_def)

text \<open>
  Claim C1. If the aggregate count query of a class fails (\<^verbatim>\<open>executeAggregateQuery\<close>
  throws), \<^verbatim>\<open>getObjectCount\<close> returns 0 for it and nothing propagates out of
  \<^verbatim>\<open>getCollections\<close>. For a schema fetch that declares classes: \<^verbatim>\<open>getCollections\<close>
  returns when the declarations are well formed and the count query of each class,
  sent at its place in the run, settles (it fails, or is answered in the declared
  shape). Whenever it returns, the catalogue has one entry per declared class, the
  requests sent are the schema fetch and one count query per class, and the entry of
  every class whose count query failed in this run carries that class's name and the
  count 0. The instance after the theorem is a run against the database whose
  \<^verbatim>\<open>Author\<close> query fails once and would report 7 if it were sent again.
\<close>

theorem getCollections_masks_failed_count:
  assumes "schema_declares srv log classes"
  shows "(\<forall>X h e h'. executeAggregateQuery srv (aggregateQuery X) h = (Inl e, h') \<longrightarrow>
            getObjectCount srv X h = (Inr (JNum 0), h')) \<and>
         (list_all class_declaration classes \<and>
          (\<forall>i < length classes.
             count_query_settles srv (field (classes ! i) ''class'') (run_history log classes i)) \<longrightarrow>
            (\<exists>collections log'. getCollections srv log = (Inr collections, log'))) \<and>
         (\<forall>collections log'.
            getCollections srv log = (Inr collections, log') \<longrightarrow>
            length collections = length classes \<and>
            log' = run_history log classes (length classes) \<and>
            (\<forall>i < length classes.
               count_query_fails srv (field (classes ! i) ''class'') (run_history log classes i) \<longrightarrow>
               CollectionInfo.name (collections ! i) = field (classes ! i) ''class'' \<and>
               count (collections ! i) = JNum 0))"
proof -
  have masks: "\<forall>X h e h'. executeAggregateQuery srv (aggregateQuery X) h = (Inl e, h') \<longrightarrow>
          getObjectCount srv X h = (Inr (JNum 0), h')"
    by (simp add: getObjectCount_masks)
  have returns: "list_all class_declaration classes \<and>
          (\<forall>i < length classes.
             count_query_settles srv (field (classes ! i) ''class'') (run_history log classes i)) \<longrightarrow>
            (\<exists>collections log'. getCollections srv log = (Inr collections, log'))"
    using getCollections_returns [OF assms] by blast
  have form: "length collections = length classes \<and>
            log' = run_history log classes (length classes) \<and>
            (\<forall>i < length classes.
               count_query_fails srv (field (classes ! i) ''class'') (run_history log classes i) \<longrightarrow>
               CollectionInfo.name (collections ! i) = field (classes ! i) ''class'' \<and>
               count (collections ! i) = JNum 0)"
    if r: "getCollections srv log = (Inr collections, log')" for collections log'
  proof -
    note all = getCollections_returned [OF assms r]
    have "CollectionInfo.name (collections ! i) = field (classes ! i) ''class'' \<and>
          count (collections ! i) = JNum 0"
      if i: "i < length classes"
        and f: "count_query_fails srv (field (classes ! i) ''class'') (run_history log classes i)"
      for i
    proof -
      from all i obtain n where n: "class_info (classes ! i) n = Inr (collections ! i)"
        and c: "count (collections ! i) =
          answered_count (srv (run_history log classes i) (count_request (classes ! i)))
            (field (classes ! i) ''class'')"
        by blast
      from f have "answered_count (srv (run_history log classes i) (count_request (classes ! i)))
            (field (classes ! i) ''class'') = JNum 0"
        by (auto simp: count_query_fails_def executeAggregateQuery_def fetch_def
            answered_count_def count_request_def split: sum.splits if_splits)
      with c class_info_fields [OF n] show ?thesis by simp
    qed
    with all show ?thesis by blast
  qed
  from masks returns form show ?thesis by blast
qed

theorem getCollections_masks_failed_count_witness:
  "schema_declares flaky_server [] mock_classes \<and>
   list_all class_declaration mock_classes \<and>
   count_query_settles flaky_server (Some (JStr ''Article'')) (run_history [] mock_classes 0) \<and>
   count_query_fails flaky_server (Some (JStr ''Author'')) (run_history [] mock_classes 1) \<and>
   \<not> count_query_fails flaky_server (Some (JStr ''Author'')) (run_history [] mock_classes 2) \<and>
   (\<exists>collections log'.
      getCollections flaky_server [] = (Inr collections, log') \<and>
      length collections = 2 \<and>
      log' = [GET_schema, POST_graphql (aggregateQuery (Some (JStr ''Article''))),
              POST_graphql (aggregateQuery (Some (JStr ''Author'')))] \<and>
      CollectionInfo.name (collections ! 1) = Some (JStr ''Author'') \<and>
      count (collections ! 1) = JNum 0)"
proof -
  note main = getCollections_masks_failed_count [OF flaky_facts(1)]
  have settles: "\<forall>i < length mock_classes.
      count_query_settles flaky_server (field (mock_classes ! i) ''class'')
        (run_history [] mock_classes i)"
  proof (intro allI impI)
    fix i
    assume "i < length mock_classes"
    then have "i = 0 \<or> i = 1" by (auto simp: mock_classes_def)
    with flaky_facts(2) count_query_fails_settles [OF flaky_facts(3)]
    show "count_query_settles flaky_server (field (mock_classes ! i) ''class'')
        (run_history [] mock_classes i)"
      by (auto simp: mock_classes_def field_def)
  qed
  have fails: "count_query_fails flaky_server (field (mock_classes ! 1) ''class'')
      (run_history [] mock_classes 1)"
    using flaky_facts(3) by (simp add: mock_classes_def field_def)
  from main mock_classes_well_formed settles obtain collections log' where
    c: "getCollections flaky_server [] = (Inr collections, log')" by blast
  with main have "length collections = length mock_classes"
    and "log' = run_history [] mock_classes (length mock_classes)"
    and "\<forall>i < length mock_classes.
          count_query_fails flaky_server (field (mock_classes ! i) ''class'')
            (run_history [] mock_classes i) \<longrightarrow>
          CollectionInfo.name (collections ! i) = field (mock_classes ! i) ''class'' \<and>
          count (collections ! i) = JNum 0"
    by blast+
  with fails have "length collections = 2"
    "log' = [GET_schema, POST_graphql (aggregateQuery (Some (JStr ''Article''))),
              POST_graphql (aggregateQuery (Some (JStr ''Author'')))]"
    "CollectionInfo.name (collections ! 1) = Some (JStr ''Author'') \<and>
     count (collections ! 1) = JNum 0"
    by (simp_all add: mock_classes_def field_def run_history_def count_request_def)
  with c flaky_facts mock_classes_well_formed show ?thesis by simp
qed



text \<open>
  Claim C4. If the schema endpoint answers with a status that is not a success,
  \<^verbatim>\<open>getCollections\<close> fails with an error whose message carries the status text; the
  only request sent is the schema fetch (no aggregate query), and no entry is returned.
\<close>

theorem schema_failure_no_partial_result:
  assumes "srv log GET_schema = Inr response" and "\<not> ok response"
  shows "getCollections srv log =
           (Inl (Error (''Failed to fetch schema: '' @ statusText response)), log @ [GET_schema])"
  using assms by (simp add: getCollections_def fetch_def)

theorem schema_failure_no_partial_result_witness:
  "unavailable [] GET_schema =
     Inr \<lparr>Response.status = 503, statusText = ''Service Unavailable'', json_body = Inr JNull\<rparr> \<and>
   \<not> ok \<lparr>Response.status = 503, statusText = ''Service Unavailable'', json_body = Inr JNull\<rparr> \<and>
   getCollections unavailable [] =
     (Inl (Error ''Failed to fetch schema: Service Unavailable''), [GET_schema])"
proof -
  have a: "unavailable [] GET_schema =
     Inr \<lparr>Response.status = 503, statusText = ''Service Unavailable'', json_body = Inr JNull\<rparr>"
    by (simp add: unavailable_def)
  have b: "\<not> ok \<lparr>Response.status = 503, statusText = ''Service Unavailable'', json_body = Inr JNull\<rparr>"
    by (simp add: ok_def)
  from schema_failure_no_partial_result [of unavailable "[]", OF a b] a b show ?thesis by simp
qed

section \<open>Reading the rows of a collection\<close>

lemma getCollectionData_sends:
  "snd (getCollectionData srv className props log) = log @ [POST_graphql (GetQuery className props)]"
  by (simp add: getCollectionData_def executeQuery_def fetch_def split: sum.splits)

text \<open>
  Claim C5. When the response that \<^verbatim>\<open>executeQuery\<close> returns lacks the
  \<^verbatim>\<open>data.Get\<close> envelope (the response, its \<^verbatim>\<open>data\<close> or the \<^verbatim>\<open>Get\<close> of its
  \<^verbatim>\<open>data\<close> is missing), \<^verbatim>\<open>getCollectionData\<close> fails with the error
  \<^verbatim>\<open>Invalid response structure from Weaviate\<close>; it returns no sequence, empty or
  partial.
\<close>

theorem getCollectionData_rejects_missing_envelope:
  assumes "executeQuery srv (GetQuery className props) log = (Inr response, log')"
      and "lacks_Get_envelope response"
  shows "getCollectionData srv className props log =
           (Inl (Error ''Invalid response structure from Weaviate''), log')"
proof -
  from assms(2) have "\<not> js_truthy (opt_field (opt_field (Some response) ''data'') ''Get'')"
    by (auto simp: lacks_Get_envelope_def js_nullish_def opt_field_def split: option.splits)
  with assms(1) show ?thesis
    by (simp add: getCollectionData_def data_Get_field)
qed

theorem getCollectionData_rejects_missing_envelope_witness:
  "executeQuery errors_only (GetQuery ''Article'' []) [] =
     (Inr (JObj [(''errors'', JArr [JObj [(''message'', JStr ''Cannot query field'')]])]),
      [POST_graphql (GetQuery ''Article'' [])]) \<and>
   lacks_Get_envelope (JObj [(''errors'', JArr [JObj [(''message'', JStr ''Cannot query field'')]])]) \<and>
   getCollectionData errors_only ''Article'' [] [] =
     (Inl (Error ''Invalid response structure from Weaviate''),
      [POST_graphql (GetQuery ''Article'' [])])"
proof -
  have a: "executeQuery errors_only (GetQuery ''Article'' []) [] =
     (Inr (JObj [(''errors'', JArr [JObj [(''message'', JStr ''Cannot query field'')]])]),
      [POST_graphql (GetQuery ''Article'' [])])"
    by (simp add: executeQuery_def fetch_def errors_only_def reply_def ok_def)
  have b: "lacks_Get_envelope (JObj [(''errors'', JArr [JObj [(''message'', JStr ''Cannot query field'')]])])"
    by (simp add: lacks_Get_envelope_def field_def)
  from getCollectionData_rejects_missing_envelope [OF a b] a b show ?thesis by simp
qed




section \<open>The route handler\<close>

lemma deleteCollection_sends:
  "snd (deleteCollection srv className log) = log @ [DELETE_class className]"
  by (simp add: deleteCollection_def fetch_def split: sum.splits)

lemma mock_rows:
  "getCollectionData mock_server ''Article''
     [\<lparr>GetProperty.name = Some (JStr ''title''), dataType = Some (JArr [JStr ''string''])\<rparr>] l =
     (Inr (JArr [JObj [(''title'', JStr ''A'')]]),
      l @ [POST_graphql (GetQuery ''Article''
        [\<lparr>GetProperty.name = Some (JStr ''title''), dataType = Some (JArr [JStr ''string''])\<rparr>])])"
  by (simp add: getCollectionData_def executeQuery_def fetch_def mock_server_def reply_def ok_def
        GetQuery_def aggregateQuery_def js_join_def js_toString_def js_nullish_def
        data_Get_field opt_field_def field_def js_or_def)

lemma mock_GET_Article:
  "GET mock_newURL mock_server \<lparr>url = ''http://localhost:3000/api/collection/Article''\<rparr> [] =
     (\<lparr>NextResponse.status = 200, body = JObj [(''data'', JArr [JObj [(''title'', JStr ''A'')]])]\<rparr>,
      [GET_schema, POST_graphql (aggregateQuery (Some (JStr ''Article''))),
       POST_graphql (aggregateQuery (Some (JStr ''Author''))),
       POST_graphql (GetQuery ''Article''
        [\<lparr>GetProperty.name = Some (JStr ''title''), dataType = Some (JArr [JStr ''string''])\<rparr>])])"
  by (simp add: GET_def GET_calling_def mock_newURL_def js_pop_def mock_catalogue
      getCollectionData3_def requested_property_def js_or_def mock_rows)

lemma GET_calling_found:
  assumes "newURL (url request) = Inr u"
      and "js_pop (js_split CHR ''/'' (pathname u)) = Some nm" and "nm \<noteq> []"
      and "getCollections srv log = (Inr collections, log')"
      and "find (\<lambda>c. CollectionInfo.name c = Some (JStr nm)) collections = Some info"
  shows "GET_calling reader newURL srv request log =
           (case reader nm
                   (map (\<lambda>p. \<lparr>GetProperty.name = PropertyInfo.name p,
                               dataType = Some (JArr [JStr ''string''])\<rparr>) (properties info))
                   (sortDirective (map_of (searchParams u) ''sortProperty'')
                      (map_of (searchParams u) ''sortOrder''))
                   log' of
              (Inl e, l) \<Rightarrow> (failed ''Failed to fetch data'' e, l)
            | (Inr rows, l) \<Rightarrow>
                (\<lparr>NextResponse.status = 200, body = JObj [(''data'', rows)]\<rparr>, l))"
proof -
  from assms(5) have "info \<in> set collections"
    by (auto simp: find_Some_iff)
  from getCollections_only_names [OF assms(4) this]
  have none: "\<forall>p \<in> set (properties info). PropertyInfo.dataType p = None"
    by blast
  have eq: "map requested_property (properties info) =
          map (\<lambda>p. \<lparr>GetProperty.name = PropertyInfo.name p,
                     dataType = Some (JArr [JStr ''string''])\<rparr>) (properties info)"
    by (rule map_cong [OF refl]) (simp add: none requested_property_def js_or_def)
  from assms show ?thesis
    by (simp add: GET_calling_def eq)
qed

text \<open>
  Claim C9. The properties of every entry that \<^verbatim>\<open>getCollections\<close> returns carry a
  name only: their \<^verbatim>\<open>description\<close> and \<^verbatim>\<open>dataType\<close> are \<^verbatim>\<open>undefined\<close>, whatever
  the schema declares. So the \<^verbatim>\<open>GET\<close> handler, when it finds the collection, calls
  the reader of the rows (\<^verbatim>\<open>getCollectionData\<close>) with the names of the entry's
  properties, each with the data type \<^verbatim>\<open>['string']\<close>, and replies with what that
  call gives. In the mocked schema the property \<^verbatim>\<open>title\<close> declares the data type
  \<^verbatim>\<open>text\<close> and a description; the reader of the instance returns the data types it
  is called with.
\<close>

theorem properties_carry_only_name:
  assumes "getCollections srv log = (Inr collections, log')"
  shows "(\<forall>info \<in> set collections. \<forall>p \<in> set (properties info).
            PropertyInfo.description p = None \<and> PropertyInfo.dataType p = None) \<and>
         (\<forall>reader newURL request u nm info.
            newURL (url request) = Inr u \<longrightarrow>
            js_pop (js_split CHR ''/'' (pathname u)) = Some nm \<longrightarrow> nm \<noteq> [] \<longrightarrow>
            find (\<lambda>c. CollectionInfo.name c = Some (JStr nm)) collections = Some info \<longrightarrow>
            GET_calling reader newURL srv request log =
              (case reader nm
                      (map (\<lambda>p. \<lparr>GetProperty.name = PropertyInfo.name p,
                                  dataType = Some (JArr [JStr ''string''])\<rparr>) (properties info))
                      (sortDirective (map_of (searchParams u) ''sortProperty'')
                         (map_of (searchParams u) ''sortOrder''))
                      log' of
                 (Inl e, l) \<Rightarrow> (failed ''Failed to fetch data'' e, l)
               | (Inr rows, l) \<Rightarrow>
                   (\<lparr>NextResponse.status = 200, body = JObj [(''data'', rows)]\<rparr>, l)) \<and>
            GET newURL srv request log =
              (case getCollectionData srv nm
                      (map (\<lambda>p. \<lparr>GetProperty.name = PropertyInfo.name p,
                                  dataType = Some (JArr [JStr ''string''])\<rparr>) (properties info))
                      log' of
                 (Inl e, l) \<Rightarrow> (failed ''Failed to fetch data'' e, l)
               | (Inr rows, l) \<Rightarrow>
                   (\<lparr>NextResponse.status = 200, body = JObj [(''data'', rows)]\<rparr>, l)))"
proof -
  have "\<forall>info \<in> set collections. \<forall>p \<in> set (properties info).
            PropertyInfo.description p = None \<and> PropertyInfo.dataType p = None"
    using getCollections_only_names [OF assms] by blast
  moreover
  have "GET_calling reader newURL srv request log =
              (case reader nm
                      (map (\<lambda>p. \<lparr>GetProperty.name = PropertyInfo.name p,
                                  dataType = Some (JArr [JStr ''string''])\<rparr>) (properties info))
                      (sortDirective (map_of (searchParams u) ''sortProperty'')
                         (map_of (searchParams u) ''sortOrder''))
                      log' of
                 (Inl e, l) \<Rightarrow> (failed ''Failed to fetch data'' e, l)
               | (Inr rows, l) \<Rightarrow>
                   (\<lparr>NextResponse.status = 200, body = JObj [(''data'', rows)]\<rparr>, l)) \<and>
        GET newURL srv request log =
              (case getCollectionData srv nm
                      (map (\<lambda>p. \<lparr>GetProperty.name = PropertyInfo.name p,
                                  dataType = Some (JArr [JStr ''string''])\<rparr>) (properties info))
                      log' of
                 (Inl e, l) \<Rightarrow> (failed ''Failed to fetch data'' e, l)
               | (Inr rows, l) \<Rightarrow>
                   (\<lparr>NextResponse.status = 200, body = JObj [(''data'', rows)]\<rparr>, l))"
    if "newURL (url request) = Inr u"
      and "js_pop (js_split CHR ''/'' (pathname u)) = Some nm" and "nm \<noteq> []"
      and "find (\<lambda>c. CollectionInfo.name c = Some (JStr nm)) collections = Some info"
    for reader newURL request u nm info
    using GET_calling_found [where newURL = newURL and request = request and u = u and nm = nm
        and srv = srv and log = log and info = info, OF that(1-3) assms that(4)]
    by (simp add: GET_def getCollectionData3_def)
  ultimately show ?thesis by blast
qed

theorem properties_carry_only_name_witness:
  "getCollections mock_server [] =
     (Inr [\<lparr>CollectionInfo.name = Some (JStr ''Article''), description = Some (JStr ''News''),
             count = JNum 42,
             properties = [\<lparr>PropertyInfo.name = Some (JStr ''title''), description = None,
                             dataType = None\<rparr>]\<rparr>,
           \<lparr>CollectionInfo.name = Some (JStr ''Author''), description = None,
             count = JNum 0, properties = []\<rparr>],
      [GET_schema, POST_graphql (aggregateQuery (Some (JStr ''Article''))),
       POST_graphql (aggregateQuery (Some (JStr ''Author'')))]) \<and>
   GET_calling dataTypes_probe mock_newURL mock_server
       \<lparr>url = ''http://localhost:3000/api/collection/Article''\<rparr> [] =
     (\<lparr>NextResponse.status = 200, body = JObj [(''data'', JArr [JArr [JStr ''string'']])]\<rparr>,
      [GET_schema, POST_graphql (aggregateQuery (Some (JStr ''Article''))),
       POST_graphql (aggregateQuery (Some (JStr ''Author'')))])"
proof -
  let ?r = "\<lparr>url = ''http://localhost:3000/api/collection/Article''\<rparr>"
  let ?u = "\<lparr>pathname = ''/api/collection/Article'', searchParams = []\<rparr>"
  let ?info = "\<lparr>CollectionInfo.name = Some (JStr ''Article''), description = Some (JStr ''News''),
             count = JNum 42,
             properties = [\<lparr>PropertyInfo.name = Some (JStr ''title''), description = None,
                             dataType = None\<rparr>]\<rparr>"
  let ?cs = "[?info, \<lparr>CollectionInfo.name = Some (JStr ''Author''), description = None,
                        count = JNum 0, properties = []\<rparr>]"
  have a: "mock_newURL (url ?r) = Inr ?u" by (simp add: mock_newURL_def)
  have b: "js_pop (js_split CHR ''/'' (pathname ?u)) = Some ''Article''"
    by (simp add: js_pop_def)
  have c: "''Article'' \<noteq> []" by simp
  have d: "find (\<lambda>c. CollectionInfo.name c = Some (JStr ''Article'')) ?cs = Some ?info"
    by simp
  from properties_carry_only_name [OF mock_catalogue] a b c d
  have "GET_calling dataTypes_probe mock_newURL mock_server ?r [] =
          (case dataTypes_probe ''Article''
                  (map (\<lambda>p. \<lparr>GetProperty.name = PropertyInfo.name p,
                              dataType = Some (JArr [JStr ''string''])\<rparr>) (properties ?info))
                  (sortDirective (map_of (searchParams ?u) ''sortProperty'')
                     (map_of (searchParams ?u) ''sortOrder''))
                  [GET_schema, POST_graphql (aggregateQuery (Some (JStr ''Article''))),
                   POST_graphql (aggregateQuery (Some (JStr ''Author'')))] of
             (Inl e, l) \<Rightarrow> (failed ''Failed to fetch data'' e, l)
           | (Inr rows, l) \<Rightarrow>
               (\<lparr>NextResponse.status = 200, body = JObj [(''data'', rows)]\<rparr>, l))"
    by blast
  with mock_catalogue show ?thesis
    by (simp add: dataTypes_probe_def)
qed

text \<open>
  Claim C3. The \<^verbatim>\<open>sortProperty\<close> and \<^verbatim>\<open>sortOrder\<close> parameters of a \<^verbatim>\<open>GET\<close>
  request have no influence: two requests whose URLs have the same path name, whatever
  their query parameters, get the same reply and make the handler send the same
  requests to the database; and for every class name and property list
  \<^verbatim>\<open>getCollectionData\<close> sends the same query and returns the same result whatever
  sort directive it is called with.
\<close>

theorem sort_parameters_without_effect:
  assumes "newURL (url r1) = Inr u1" and "newURL (url r2) = Inr u2"
      and "pathname u1 = pathname u2"
  shows "GET newURL srv r1 log = GET newURL srv r2 log \<and>
         (\<forall>className props d1 d2 l.
            getCollectionData3 srv className props d1 l = getCollectionData3 srv className props d2 l \<and>
            snd (getCollectionData3 srv className props d1 l) =
              l @ [POST_graphql (GetQuery className props)])"
proof -
  from assms have "GET newURL srv r1 log = GET newURL srv r2 log"
    unfolding GET_def GET_calling_def getCollectionData3_def by simp
  then show ?thesis
    by (simp add: getCollectionData3_def getCollectionData_sends)
qed

theorem sort_parameters_without_effect_witness:
  "mock_newURL ''http://localhost:3000/api/collection/Article'' =
     Inr \<lparr>pathname = ''/api/collection/Article'', searchParams = []\<rparr> \<and>
   mock_newURL ''http://localhost:3000/api/collection/Article?sortProperty=title&sortOrder=desc'' =
     Inr \<lparr>pathname = ''/api/collection/Article'',
           searchParams = [(''sortProperty'', ''title''), (''sortOrder'', ''desc'')]\<rparr> \<and>
   GET mock_newURL mock_server
     \<lparr>url = ''http://localhost:3000/api/collection/Article?sortProperty=title&sortOrder=desc''\<rparr> [] =
     (\<lparr>NextResponse.status = 200, body = JObj [(''data'', JArr [JObj [(''title'', JStr ''A'')]])]\<rparr>,
      [GET_schema, POST_graphql (aggregateQuery (Some (JStr ''Article''))),
       POST_graphql (aggregateQuery (Some (JStr ''Author''))),
       POST_graphql (GetQuery ''Article''
        [\<lparr>GetProperty.name = Some (JStr ''title''), dataType = Some (JArr [JStr ''string''])\<rparr>])])"
proof -
  have a: "mock_newURL (url \<lparr>url = ''http://localhost:3000/api/collection/Article''\<rparr>) =
     Inr \<lparr>pathname = ''/api/collection/Article'', searchParams = []\<rparr>"
    by (simp add: mock_newURL_def)
  have b: "mock_newURL (url \<lparr>url = ''http://localhost:3000/api/collection/Article?sortProperty=title&sortOrder=desc''\<rparr>) =
     Inr \<lparr>pathname = ''/api/collection/Article'',
           searchParams = [(''sortProperty'', ''title''), (''sortOrder'', ''desc'')]\<rparr>"
    by (simp add: mock_newURL_def)
  from sort_parameters_without_effect [OF a b, of mock_server "[]"]
  have "GET mock_newURL mock_server \<lparr>url = ''http://localhost:3000/api/collection/Article''\<rparr> [] =
        GET mock_newURL mock_server
          \<lparr>url = ''http://localhost:3000/api/collection/Article?sortProperty=title&sortOrder=desc''\<rparr> []"
    by simp
  with mock_GET_Article a b show ?thesis by simp
qed

text \<open>
  Claim C7. A \<^verbatim>\<open>GET\<close> request that names a collection (the last piece of its path
  name is not empty) which is not among the names that \<^verbatim>\<open>getCollections\<close> returns is
  answered with status 404 and the body \<^verbatim>\<open>{error: "Collection not found"}\<close>. The
  requests sent are those of \<^verbatim>\<open>getCollections\<close> and no more:
  \<^verbatim>\<open>getCollectionData\<close>, which sends a request whenever it is called, is not called.
\<close>

theorem GET_unknown_collection:
  assumes "newURL (url request) = Inr u"
      and "js_pop (js_split CHR ''/'' (pathname u)) = Some nm" and "nm \<noteq> []"
      and "getCollections srv log = (Inr collections, log')"
      and "Some (JStr nm) \<notin> CollectionInfo.name ` set collections"
  shows "GET newURL srv request log =
           (\<lparr>NextResponse.status = 404, body = JObj [(''error'', JStr ''Collection not found'')]\<rparr>,
            log') \<and>
         (\<forall>className props l. snd (getCollectionData srv className props l) \<noteq> l)"
proof -
  from assms(5) have "find (\<lambda>c. CollectionInfo.name c = Some (JStr nm)) collections = None"
    by (auto simp: find_None_iff intro: rev_image_eqI)
  with assms(1-4) show ?thesis
    by (simp add: GET_def GET_calling_def not_found_def getCollectionData_sends)
qed

theorem GET_unknown_collection_witness:
  "mock_newURL (url \<lparr>url = ''http://localhost:3000/api/collection/Book?x=1''\<rparr>) =
     Inr \<lparr>pathname = ''/api/collection/Book'', searchParams = [(''x'', ''1'')]\<rparr> \<and>
   js_pop (js_split CHR ''/'' ''/api/collection/Book'') = Some ''Book'' \<and>
   GET mock_newURL mock_server \<lparr>url = ''http://localhost:3000/api/collection/Book?x=1''\<rparr> [] =
     (\<lparr>NextResponse.status = 404, body = JObj [(''error'', JStr ''Collection not found'')]\<rparr>,
      [GET_schema, POST_graphql (aggregateQuery (Some (JStr ''Article''))),
       POST_graphql (aggregateQuery (Some (JStr ''Author'')))])"
proof -
  let ?u = "\<lparr>pathname = ''/api/collection/Book'', searchParams = [(''x'', ''1'')]\<rparr>"
  have a: "mock_newURL (url \<lparr>url = ''http://localhost:3000/api/collection/Book?x=1''\<rparr>) = Inr ?u"
    by (simp add: mock_newURL_def)
  have b: "js_pop (js_split CHR ''/'' (pathname ?u)) = Some ''Book''"
    by (simp add: js_pop_def)
  have c: "''Book'' \<noteq> []" by simp
  from GET_unknown_collection [of mock_newURL _ ?u, OF a b c mock_catalogue] a b show ?thesis
    by simp
qed

text \<open>
  Claim C8. A \<^verbatim>\<open>DELETE\<close> request whose URL has no name segment (the piece after
  its last \<^verbatim>\<open>/\<close> is empty, as for every URL that ends in \<^verbatim>\<open>/\<close>: lemma
  \<open>no_name_segment\<close>) is answered with status 400 and an error body. No request is
  sent: \<^verbatim>\<open>deleteCollection\<close>, which sends one whenever it is called, is not called.
\<close>

theorem DELETE_without_name:
  assumes "js_pop (js_split CHR ''/'' (url request)) = Some []"
  shows "DELETE srv request log =
           (\<lparr>NextResponse.status = 400,
             body = JObj [(''error'', JStr ''Collection name is required'')]\<rparr>, log) \<and>
         (\<forall>className l. snd (deleteCollection srv className l) \<noteq> l)"
  using assms by (simp add: DELETE_def name_required_def deleteCollection_sends)

theorem DELETE_without_name_witness:
  "js_pop (js_split CHR ''/'' (url \<lparr>url = ''http://localhost:3000/api/collection/''\<rparr>)) = Some [] \<and>
   DELETE mock_server \<lparr>url = ''http://localhost:3000/api/collection/''\<rparr> [] =
     (\<lparr>NextResponse.status = 400,
       body = JObj [(''error'', JStr ''Collection name is required'')]\<rparr>, [])"
proof -
  have a: "js_pop (js_split CHR ''/'' (url \<lparr>url = ''http://localhost:3000/api/collection/''\<rparr>)) = Some []"
    by (simp add: js_pop_def)
  from DELETE_without_name [OF a] a show ?thesis by simp
qed

text \<open>
  Claim C10 says that the \<^verbatim>\<open>DELETE\<close> handler takes the last piece of the whole URL
  split at \<^verbatim>\<open>/\<close>, so that for every request whose URL carries a query string the name
  passed to \<^verbatim>\<open>deleteCollection\<close> includes the query string. The first half is what
  the code does; the consequence fails when the query string itself contains a
  \<^verbatim>\<open>/\<close>: for \<^verbatim>\<open>/api/collection/Article?x=a/b\<close> the name passed is \<^verbatim>\<open>b\<close>.
\<close>

theorem DELETE_name_from_whole_url_counterexample:
  "DELETE mock_server \<lparr>url = ''http://localhost:3000/api/collection/Article?x=a/b''\<rparr> [] =
     (\<lparr>NextResponse.status = 200, body = JObj [(''success'', JBool True)]\<rparr>,
      [DELETE_class ''b'']) \<and>
   ''b'' \<noteq> ''Article?x=a/b''"
  by (simp add: DELETE_def js_pop_def deleteCollection_def fetch_def mock_server_def)

text \<open>
  Claim C10, amended. For every \<^verbatim>\<open>DELETE\<close> request whose URL carries a query string
  that contains no \<^verbatim>\<open>/\<close>, the name passed to \<^verbatim>\<open>deleteCollection\<close> is the last path
  segment followed by \<^verbatim>\<open>?\<close> and the query string (\<^verbatim>\<open>Article?x=1\<close>): the handler
  replies with what \<^verbatim>\<open>deleteCollection\<close> of that name gives, and the one request sent
  is the deletion of the class of that name. The \<^verbatim>\<open>GET\<close> handler splits the path
  name only: for the same URL, when the last path segment names a collection of the
  catalogue, it replies with the rows read under the last path segment alone, and the
  query it sends for the rows names that segment.
\<close>

theorem DELETE_name_from_whole_url:
  assumes "CHR ''/'' \<notin> set seg" and "CHR ''/'' \<notin> set query"
      and "request = \<lparr>url = base @ ''/'' @ seg @ ''?'' @ query\<rparr>"
  shows "DELETE srv request log =
           (case deleteCollection srv (seg @ ''?'' @ query) log of
              (Inl e, l) \<Rightarrow> (failed ''Failed to delete collection'' e, l)
            | (Inr unit, l) \<Rightarrow>
                (\<lparr>NextResponse.status = 200, body = JObj [(''success'', JBool True)]\<rparr>, l)) \<and>
         snd (DELETE srv request log) = log @ [DELETE_class (seg @ ''?'' @ query)] \<and>
         (\<forall>newURL u path collections log' info.
            newURL (url request) = Inr u \<longrightarrow> pathname u = path @ ''/'' @ seg \<longrightarrow> seg \<noteq> [] \<longrightarrow>
            getCollections srv log = (Inr collections, log') \<longrightarrow>
            find (\<lambda>c. CollectionInfo.name c = Some (JStr seg)) collections = Some info \<longrightarrow>
            GET newURL srv request log =
              (case getCollectionData srv seg (map requested_property (properties info)) log' of
                 (Inl e, l) \<Rightarrow> (failed ''Failed to fetch data'' e, l)
               | (Inr rows, l) \<Rightarrow>
                   (\<lparr>NextResponse.status = 200, body = JObj [(''data'', rows)]\<rparr>, l)) \<and>
            snd (GET newURL srv request log) =
              log' @ [POST_graphql (GetQuery seg (map requested_property (properties info)))])"
proof -
  from assms(1,2) have "CHR ''/'' \<notin> set (seg @ ''?'' @ query)" by simp
  from last_piece [OF this, of base] assms(3)
  have nm: "js_pop (js_split CHR ''/'' (url request)) = Some (seg @ ''?'' @ query)" by simp
  then have reply: "DELETE srv request log =
           (case deleteCollection srv (seg @ ''?'' @ query) log of
              (Inl e, l) \<Rightarrow> (failed ''Failed to delete collection'' e, l)
            | (Inr unit, l) \<Rightarrow>
                (\<lparr>NextResponse.status = 200, body = JObj [(''success'', JBool True)]\<rparr>, l))"
    by (simp add: DELETE_def)
  from nm have sent: "snd (DELETE srv request log) = log @ [DELETE_class (seg @ ''?'' @ query)]"
    by (simp add: DELETE_def deleteCollection_def fetch_def split: sum.splits)
  have rows: "GET newURL srv request log =
              (case getCollectionData srv seg (map requested_property (properties info)) log' of
                 (Inl e, l) \<Rightarrow> (failed ''Failed to fetch data'' e, l)
               | (Inr rows, l) \<Rightarrow>
                   (\<lparr>NextResponse.status = 200, body = JObj [(''data'', rows)]\<rparr>, l)) \<and>
            snd (GET newURL srv request log) =
              log' @ [POST_graphql (GetQuery seg (map requested_property (properties info)))]"
    if "newURL (url request) = Inr u" and "pathname u = path @ ''/'' @ seg" and "seg \<noteq> []"
      and "getCollections srv log = (Inr collections, log')"
      and "find (\<lambda>c. CollectionInfo.name c = Some (JStr seg)) collections = Some info"
    for newURL u path collections log' info
  proof -
    from last_piece [OF assms(1), of path] that(2)
    have "js_pop (js_split CHR ''/'' (pathname u)) = Some seg" by simp
    with that(1,3,4,5)
    have eq: "GET newURL srv request log =
          (case getCollectionData srv seg (map requested_property (properties info)) log' of
             (Inl e, l) \<Rightarrow> (failed ''Failed to fetch data'' e, l)
           | (Inr rows, l) \<Rightarrow>
               (\<lparr>NextResponse.status = 200, body = JObj [(''data'', rows)]\<rparr>, l))"
      by (simp add: GET_def GET_calling_def getCollectionData3_def)
    then have "snd (GET newURL srv request log) =
           log' @ [POST_graphql (GetQuery seg (map requested_property (properties info)))]"
      using getCollectionData_sends [of srv seg "map requested_property (properties info)" log']
      by (auto split: prod.splits sum.splits)
    with eq show ?thesis by blast
  qed
  from reply sent rows show ?thesis by blast
qed

theorem DELETE_name_from_whole_url_witness:
  "DELETE mock_server \<lparr>url = ''http://localhost:3000/api/collection/Article?x=1''\<rparr> [] =
     (\<lparr>NextResponse.status = 200, body = JObj [(''success'', JBool True)]\<rparr>,
      [DELETE_class ''Article?x=1'']) \<and>
   GET mock_newURL mock_server \<lparr>url = ''http://localhost:3000/api/collection/Article?x=1''\<rparr> [] =
     (\<lparr>NextResponse.status = 200, body = JObj [(''data'', JArr [JObj [(''title'', JStr ''A'')]])]\<rparr>,
      [GET_schema, POST_graphql (aggregateQuery (Some (JStr ''Article''))),
       POST_graphql (aggregateQuery (Some (JStr ''Author''))),
       POST_graphql (GetQuery ''Article''
        [\<lparr>GetProperty.name = Some (JStr ''title''), dataType = Some (JArr [JStr ''string''])\<rparr>])])"
proof -
  let ?r = "\<lparr>url = ''http://localhost:3000/api/collection/Article?x=1''\<rparr>"
  let ?u = "\<lparr>pathname = ''/api/collection/Article'', searchParams = [(''x'', ''1'')]\<rparr>"
  let ?info = "\<lparr>CollectionInfo.name = Some (JStr ''Article''), description = Some (JStr ''News''),
             count = JNum 42,
             properties = [\<lparr>PropertyInfo.name = Some (JStr ''title''), description = None,
                             dataType = None\<rparr>]\<rparr>"
  have 1: "CHR ''/'' \<notin> set ''Article''" and 2: "CHR ''/'' \<notin> set ''x=1''" by simp_all
  have 3: "?r = \<lparr>url = ''http://localhost:3000/api/collection'' @ ''/'' @ ''Article'' @ ''?'' @ ''x=1''\<rparr>"
    by simp
  have 4: "mock_newURL (url ?r) = Inr ?u" by (simp add: mock_newURL_def)
  have 5: "pathname ?u = ''/api/collection'' @ ''/'' @ ''Article''" by simp
  have 6: "''Article'' \<noteq> []" by simp
  have 8: "find (\<lambda>c. CollectionInfo.name c = Some (JStr ''Article''))
             [?info, \<lparr>CollectionInfo.name = Some (JStr ''Author''), description = None,
                        count = JNum 0, properties = []\<rparr>] = Some ?info"
    by simp
  have del: "deleteCollection mock_server ''Article?x=1'' [] = (Inr (), [DELETE_class ''Article?x=1''])"
    by (simp add: deleteCollection_def fetch_def mock_server_def)
  note main = DELETE_name_from_whole_url [where srv = mock_server
      and request = ?r and seg = "''Article''" and query = "''x=1''"
      and base = "''http://localhost:3000/api/collection''" and log = "[]", OF 1 2 3]
  from main have "DELETE mock_server ?r [] =
           (case deleteCollection mock_server (''Article'' @ ''?'' @ ''x=1'') [] of
              (Inl e, l) \<Rightarrow> (failed ''Failed to delete collection'' e, l)
            | (Inr unit, l) \<Rightarrow>
                (\<lparr>NextResponse.status = 200, body = JObj [(''success'', JBool True)]\<rparr>, l))"
    by blast
  with del have a: "DELETE mock_server ?r [] =
     (\<lparr>NextResponse.status = 200, body = JObj [(''success'', JBool True)]\<rparr>,
      [DELETE_class ''Article?x=1''])"
    by simp
  from main 4 5 6 mock_catalogue 8
  have "GET mock_newURL mock_server ?r [] =
          (case getCollectionData mock_server ''Article''
                  (map requested_property (properties ?info))
                  [GET_schema, POST_graphql (aggregateQuery (Some (JStr ''Article''))),
                   POST_graphql (aggregateQuery (Some (JStr ''Author'')))] of
             (Inl e, l) \<Rightarrow> (failed ''Failed to fetch data'' e, l)
           | (Inr rows, l) \<Rightarrow>
               (\<lparr>NextResponse.status = 200, body = JObj [(''data'', rows)]\<rparr>, l))"
    by blast
  then have b: "GET mock_newURL mock_server ?r [] =
     (\<lparr>NextResponse.status = 200, body = JObj [(''data'', JArr [JObj [(''title'', JStr ''A'')]])]\<rparr>,
      [GET_schema, POST_graphql (aggregateQuery (Some (JStr ''Article''))),
       POST_graphql (aggregateQuery (Some (JStr ''Author''))),
       POST_graphql (GetQuery ''Article''
        [\<lparr>GetProperty.name = Some (JStr ''title''), dataType = Some (JArr [JStr ''string''])\<rparr>])])"
    by (simp add: requested_property_def js_or_def mock_rows)
  from a b show ?thesis by simp
qed

end
